theory Spec2Isabelle
  imports Main
begin

section \<open>Data model (package api)\<close>

text \<open>
  A Go \<open>interface{}\<close> value as it comes out of the YAML decoder: the nil interface, a
  string, an integer, a boolean, a slice or a map. \<open>v == nil\<close> is \<open>v = VNil\<close>, and the
  type assertion \<open>v.(string)\<close> succeeds exactly on \<open>VString\<close>.
\<close>

datatype any = VNil | VString string | VInt int | VBool bool
  | VList "any list" | VMap "(any \<times> any) list"

text \<open>
  Go errors. Errors of collaborators and libraries are opaque and identified by their
  message; the errors that the implementation builds with \<open>fmt.Errorf\<close> keep the
  arguments of the format string:
  \<^item> \<open>InvalidDefault v e\<close>: "variable declaration v has invalid default (this is an error in the generator spec): e"
  \<^item> \<open>RequiredMissing v\<close>: "parameter 'v' is required but missing"
  \<^item> \<open>InvalidPattern v e\<close>: "variable declaration v has invalid pattern (this is an error in the generator spec, not the render request): e"
  \<^item> \<open>PatternMismatch v p\<close>: "value for parameter 'v' does not match pattern p"
  \<^item> \<open>NotAllowed k\<close>: "parameter 'k' is not allowed according to generator spec"
  \<^item> \<open>LoadTemplate src e\<close>: "failed to load template src: e"
  \<^item> \<open>ParseTemplate src e\<close>: "failed to parse template src: e"
  \<^item> \<open>EvalTargetPath p ext e\<close>: "error evaluating target path from 'p'ext: e"
  \<^item> \<open>EvalCondition c ext e\<close>: "error evaluating condition from 'c'ext: e"
  \<^item> \<open>EvalTemplate p ext e\<close>: "error evaluating template for target 'p'ext: e"
  \<^item> \<open>RenderingFailed\<close>: "an error occurred during rendering, see individual files"
\<close>

datatype error =
    Opaque string
  | InvalidDefault string string
  | RequiredMissing string
  | InvalidPattern string string
  | PatternMismatch string string
  | NotAllowed string
  | LoadTemplate string string
  | ParseTemplate string string
  | EvalTargetPath string string string
  | EvalCondition string string string
  | EvalTemplate string string string
  | RenderingFailed

record TemplateSpec =
  RelativeSourcePath :: string
  RelativeTargetPath :: string
  Condition :: string
  WithItems :: "any list"
  JustCopy :: bool

record VariableSpec =
  Description :: string
  DefaultValue :: any
  ValidationPattern :: string

text \<open>
  \<open>Variables\<close> is a Go map that the implementation ranges over. It is an association
  list with distinct keys, in the order in which the run at hand visits the entries
  (Go leaves that order open); a lookup is \<open>map_of\<close>.
\<close>

record GeneratorSpec =
  Templates :: "TemplateSpec list"
  Variables :: "(string \<times> VariableSpec) list"

type_synonym params = "string \<rightharpoonup> any"

record RenderSpec =
  GeneratorName :: string
  Parameters :: params

record Request =
  SourceBaseDir :: string
  TargetBaseDir :: string
  RenderSpecFile :: string

record FileResult =
  Success_f :: bool
  RelativeFilePath :: string
  Errors_f :: "error list"

record Response =
  Success :: bool
  RenderedFiles :: "FileResult list"
  Errors :: "error list"

section \<open>Collaborators and libraries\<close>

text \<open>
  A parsed \<open>text/template\<close> is its execution: parameters to the rendered text, or the
  message of the execution error. A parsed template of the template wrapper takes the
  template name too.
\<close>

type_synonym template = "params \<Rightarrow> string + string"
type_synonym templatewrapper = "string \<Rightarrow> params \<Rightarrow> string + string"

text \<open>
  A compiled regular expression is its match relation: \<open>re s i j\<close> says that the text
  \<open>s\<close> has a match of the expression from offset \<open>i\<close> to offset \<open>j\<close>.
\<close>

type_synonym regexp = "string \<Rightarrow> nat \<Rightarrow> nat \<Rightarrow> bool"

text \<open>
  What the implementation calls and this file does not define: the packages
  \<open>generatordir\<close>, \<open>targetdir\<close> and \<open>templatewrapper\<close> of the repository, and the
  libraries \<open>text/template\<close> (with the sprig functions), \<open>regexp\<close> and \<open>fmt\<close>. \<open>'w\<close> is
  the state of the file system; a directory object is its base directory. An error is
  \<open>Inl\<close> of its message. Reading depends on the file system and leaves it as it is,
  writing returns the new one; parsing and executing a template, compiling a pattern and
  printing a value depend on their arguments only, and executing a template does not
  write to the parameters.
  \<^item> \<open>gd_ObtainGeneratorSpec sourceBaseDir generatorName\<close>
  \<^item> \<open>gd_ReadFile sourceBaseDir relativePath\<close>
  \<^item> \<open>td_ObtainRenderSpec targetBaseDir renderSpecFile\<close>
  \<^item> \<open>td_WriteRenderSpec targetBaseDir renderSpec renderSpecFile\<close>, returning the target file
  \<^item> \<open>td_WriteFile targetBaseDir relativePath contents\<close>
  \<^item> \<open>tw_Parse justCopy contents templateName sourcePath\<close>: \<open>templatewrapper.New(...).Parse()\<close>
  \<^item> \<open>template_Parse name contents\<close>: \<open>template.New(name).Funcs(sprig.TxtFuncMap()).Parse(contents)\<close>
  \<^item> \<open>regexp_Compile pattern\<close>: \<open>regexp.Compile\<close>
  \<^item> \<open>Sprintf_v v\<close>: \<open>fmt.Sprintf("%v", v)\<close>
\<close>

record 'w env =
  gd_ObtainGeneratorSpec :: "string \<Rightarrow> string \<Rightarrow> 'w \<Rightarrow> string + GeneratorSpec"
  gd_ReadFile :: "string \<Rightarrow> string \<Rightarrow> 'w \<Rightarrow> string + string"
  td_ObtainRenderSpec :: "string \<Rightarrow> string \<Rightarrow> 'w \<Rightarrow> string + RenderSpec"
  td_WriteRenderSpec :: "string \<Rightarrow> RenderSpec \<Rightarrow> string \<Rightarrow> 'w \<Rightarrow> (string + string) \<times> 'w"
  td_WriteFile :: "string \<Rightarrow> string \<Rightarrow> string \<Rightarrow> 'w \<Rightarrow> string option \<times> 'w"
  tw_Parse :: "bool \<Rightarrow> string \<Rightarrow> string \<Rightarrow> string \<Rightarrow> string + templatewrapper"
  template_Parse :: "string \<Rightarrow> string \<Rightarrow> string + template"
  regexp_Compile :: "string \<Rightarrow> string + regexp"
  Sprintf_v :: "any \<Rightarrow> string"

text \<open>
  \<open>(re *Regexp).MatchString(s)\<close> of the Go library "reports whether the string s
  contains any match of the regular expression re": a search over all offsets.
\<close>

definition re_MatchString :: "regexp \<Rightarrow> string \<Rightarrow> bool" where
  "re_MatchString re s =
     list_ex (\<lambda>i. list_ex (\<lambda>j. re s i j) [i..<Suc (length s)]) [0..<Suc (length s)]"

text \<open>\<open>regexp.MatchString(pattern, s)\<close>: compile, then search.\<close>

definition regexp_MatchString :: "'w env \<Rightarrow> string \<Rightarrow> string \<Rightarrow> string + bool" where
  "regexp_MatchString env pattern s =
     (case regexp_Compile env pattern of
        Inl err \<Rightarrow> Inl err
      | Inr re \<Rightarrow> Inr (re_MatchString re s))"

text \<open>What a full match is: the match spans the whole text.\<close>

definition fullMatch :: "regexp \<Rightarrow> string \<Rightarrow> bool" where
  "fullMatch re s = re s 0 (length s)"

text \<open>\<open>fmt.Sprintf("%d", n)\<close> for the loop counter.\<close>

definition digit_char :: "nat \<Rightarrow> char" where
  "digit_char d = ''0123456789'' ! d"

function Sprintf_d :: "nat \<Rightarrow> string" where
  "Sprintf_d n =
     (if n < 10 then [digit_char n] else Sprintf_d (n div 10) @ [digit_char (n mod 10)])"
  by pat_completeness auto
termination
  by (relation "measure (\<lambda>n. n)") auto

declare Sprintf_d.simps [simp del]

text \<open>\<open>strings.ReplaceAll(s, "/", "_")\<close>\<close>

definition ReplaceAll_slash :: "string \<Rightarrow> string" where
  "ReplaceAll_slash s = map (\<lambda>c. if c = CHR ''/'' then CHR ''_'' else c) s"

text \<open>A read \<open>m[k]\<close> of a Go map: the nil interface when the key is missing.\<close>

definition index_map :: "(string \<times> any) list \<Rightarrow> string \<Rightarrow> any" where
  "index_map m k = (case map_of m k of None \<Rightarrow> VNil | Some v \<Rightarrow> v)"

section \<open>The implementation (package implementation)\<close>

subsection \<open>Response helpers\<close>

definition errorResponseToplevel :: "error \<Rightarrow> Response" where
  "errorResponseToplevel err = \<lparr>Success = False, RenderedFiles = [], Errors = [err]\<rparr>"

definition successResponse :: "FileResult list \<Rightarrow> Response" where
  "successResponse renderedFiles =
     \<lparr>Success = True, RenderedFiles = renderedFiles, Errors = []\<rparr>"

definition errorResponseRender :: "FileResult list \<Rightarrow> Response" where
  "errorResponseRender renderedFiles =
     \<lparr>Success = False, RenderedFiles = renderedFiles, Errors = [RenderingFailed]\<rparr>"

definition successFileResult :: "string \<Rightarrow> FileResult" where
  "successFileResult relativeFilePath =
     \<lparr>Success_f = True, RelativeFilePath = relativeFilePath, Errors_f = []\<rparr>"

definition errorFileResult :: "string \<Rightarrow> error \<Rightarrow> FileResult" where
  "errorFileResult relativeFilePath err =
     \<lparr>Success_f = False, RelativeFilePath = relativeFilePath, Errors_f = [err]\<rparr>"

subsection \<open>Parameter resolution\<close>

definition renderStringDefaultFromTemplate :: "'w env \<Rightarrow> string \<Rightarrow> string \<Rightarrow> error + any" where
  "renderStringDefaultFromTemplate env variableName defaultStr =
     (let templateName = ''__defaultvalue_'' @ variableName in
      case template_Parse env templateName defaultStr of
        Inl err \<Rightarrow> Inl (InvalidDefault variableName err)
      | Inr tmpl \<Rightarrow>
          (case tmpl Map.empty of
             Inl err \<Rightarrow> Inl (InvalidDefault variableName err)
           | Inr buf \<Rightarrow> Inr (VString buf)))"

text \<open>
  The body of the loop of \<open>constructRenderSpecWithValuesOrDefaults\<close>: the value that
  \<open>renderSpec.Parameters[k]\<close> holds at the end of the pass, or the error returned.
\<close>

definition valueOrDefault ::
  "'w env \<Rightarrow> (string \<times> any) list \<Rightarrow> any \<Rightarrow> string \<Rightarrow> VariableSpec \<Rightarrow> error + any" where
  "valueOrDefault env parameters nilDefault k v =
     (if index_map parameters k = VNil then
        (if DefaultValue v = VNil then Inr nilDefault
         else
           (case DefaultValue v of
              VString defaultStr \<Rightarrow> renderStringDefaultFromTemplate env k defaultStr
            | structured \<Rightarrow> Inr structured))
      else Inr (index_map parameters k))"

text \<open>
  The loop over \<open>genSpec.Variables\<close>; the last argument is \<open>renderSpec.Parameters\<close> so
  far. An error return drops it.
\<close>

fun constructRenderSpec_loop ::
  "'w env \<Rightarrow> (string \<times> any) list \<Rightarrow> any \<Rightarrow> (string \<times> VariableSpec) list \<Rightarrow> params
     \<Rightarrow> error + params" where
  "constructRenderSpec_loop env parameters nilDefault [] ps = Inr ps"
| "constructRenderSpec_loop env parameters nilDefault ((k, v) # rest) ps =
     (case valueOrDefault env parameters nilDefault k v of
        Inl err \<Rightarrow> Inl err
      | Inr val \<Rightarrow> constructRenderSpec_loop env parameters nilDefault rest (ps(k \<mapsto> val)))"

definition constructRenderSpecWithValuesOrDefaults ::
  "'w env \<Rightarrow> string \<Rightarrow> GeneratorSpec \<Rightarrow> (string \<times> any) list \<Rightarrow> any \<Rightarrow> error + RenderSpec" where
  "constructRenderSpecWithValuesOrDefaults env generatorName genSpec parameters nilDefault =
     (case constructRenderSpec_loop env parameters nilDefault (Variables genSpec) Map.empty of
        Inl err \<Rightarrow> Inl err
      | Inr ps \<Rightarrow> Inr \<lparr>GeneratorName = generatorName, Parameters = ps\<rparr>)"

text \<open>
  The body of the loop of \<open>constructAndValidateParameterMap\<close>, in its two halves. First
  the value: the entry of \<open>renderSpec.Parameters\<close> if the key is there, else the default,
  rendered if it is a string.
\<close>

definition resolveValue :: "'w env \<Rightarrow> RenderSpec \<Rightarrow> string \<Rightarrow> VariableSpec \<Rightarrow> error + any" where
  "resolveValue env renderSpec varName varSpec =
     (case Parameters renderSpec varName of
        Some val \<Rightarrow> Inr val
      | None \<Rightarrow>
          (case DefaultValue varSpec of
             VString defaultStr \<Rightarrow> renderStringDefaultFromTemplate env varName defaultStr
           | other \<Rightarrow> Inr other))"

text \<open>Then the checks on the value: the error returned, if any.\<close>

definition validateValue :: "'w env \<Rightarrow> string \<Rightarrow> VariableSpec \<Rightarrow> any \<Rightarrow> error option" where
  "validateValue env varName varSpec val =
     (if val = VNil then Some (RequiredMissing varName)
      else if ValidationPattern varSpec \<noteq> [] then
        (case regexp_MatchString env (ValidationPattern varSpec) (Sprintf_v env val) of
           Inl err \<Rightarrow> Some (InvalidPattern varName err)
         | Inr matches \<Rightarrow>
             if \<not> matches then Some (PatternMismatch varName (ValidationPattern varSpec))
             else None)
      else None)"

text \<open>The whole pass: the value assigned to \<open>parameters[varName]\<close>, or the error returned.\<close>

definition validatedValue :: "'w env \<Rightarrow> RenderSpec \<Rightarrow> string \<Rightarrow> VariableSpec \<Rightarrow> error + any" where
  "validatedValue env renderSpec varName varSpec =
     (case resolveValue env renderSpec varName varSpec of
        Inl err \<Rightarrow> Inl err
      | Inr val \<Rightarrow>
          (case validateValue env varName varSpec val of
             Some err \<Rightarrow> Inl err
           | None \<Rightarrow> Inr val))"

fun constructAndValidate_loop ::
  "'w env \<Rightarrow> RenderSpec \<Rightarrow> (string \<times> VariableSpec) list \<Rightarrow> params \<Rightarrow> error + params" where
  "constructAndValidate_loop env renderSpec [] parameters = Inr parameters"
| "constructAndValidate_loop env renderSpec ((varName, varSpec) # rest) parameters =
     (case validatedValue env renderSpec varName varSpec of
        Inl err \<Rightarrow> Inl err
      | Inr val \<Rightarrow> constructAndValidate_loop env renderSpec rest (parameters(varName \<mapsto> val)))"

definition constructAndValidateParameterMap ::
  "'w env \<Rightarrow> GeneratorSpec \<Rightarrow> RenderSpec \<Rightarrow> error + params" where
  "constructAndValidateParameterMap env genSpec renderSpec =
     constructAndValidate_loop env renderSpec (Variables genSpec) Map.empty"

subsection \<open>Rendering\<close>

text \<open>Go's \<open>(string, error)\<close>: on an error the string returned is empty.\<close>

definition renderString :: "'w env \<Rightarrow> params \<Rightarrow> string \<Rightarrow> string \<Rightarrow> string \<times> string option" where
  "renderString env parameters templateName templateContents =
     (case template_Parse env templateName templateContents of
        Inl err \<Rightarrow> ([], Some err)
      | Inr tmpl \<Rightarrow>
          (case tmpl parameters of
             Inl err \<Rightarrow> ([], Some err)
           | Inr buf \<Rightarrow> (buf, None)))"

definition evaluateCondition :: "'w env \<Rightarrow> string \<Rightarrow> params \<Rightarrow> string \<Rightarrow> string + bool" where
  "evaluateCondition env condition parameters templateName =
     (if condition = [] then Inr True
      else
        (case renderString env parameters templateName condition of
           (rendered, Some err) \<Rightarrow> Inl err
         | (rendered, None) \<Rightarrow>
             Inr (rendered \<noteq> ''false'' \<and> rendered \<noteq> ''0'' \<and> rendered \<noteq> ''no''
                  \<and> rendered \<noteq> ''skip'')))"

definition renderAndWriteFile ::
  "'w env \<Rightarrow> params \<Rightarrow> templatewrapper \<Rightarrow> string \<Rightarrow> string \<Rightarrow> string \<Rightarrow> 'w
     \<Rightarrow> string option \<times> 'w" where
  "renderAndWriteFile env parameters tmplw templateName targetDir targetPath w =
     (case tmplw templateName parameters of
        Inl err \<Rightarrow> (Some err, w)
      | Inr buf \<Rightarrow> td_WriteFile env targetDir targetPath buf w)"

definition renderSingleTemplateIteration ::
  "'w env \<Rightarrow> TemplateSpec \<Rightarrow> params \<Rightarrow> string \<Rightarrow> string \<Rightarrow> string \<Rightarrow> FileResult list \<Rightarrow> bool
     \<Rightarrow> templatewrapper \<Rightarrow> string \<Rightarrow> 'w \<Rightarrow> (FileResult list \<times> bool) \<times> 'w" where
  "renderSingleTemplateIteration env tplSpec parameters templateName templateNameExtension
       errorMessageItemExtension renderedFiles allSuccessful tmpl targetDir w =
     (case renderString env parameters (templateName @ ''_path'' @ templateNameExtension)
             (RelativeTargetPath tplSpec) of
        (targetPath, Some err) \<Rightarrow>
          ((renderedFiles @
              [errorFileResult targetPath
                 (EvalTargetPath (RelativeTargetPath tplSpec) errorMessageItemExtension err)],
            False), w)
      | (targetPath, None) \<Rightarrow>
          (case evaluateCondition env (Condition tplSpec) parameters
                  (templateName @ ''_condition'' @ templateNameExtension) of
             Inl err \<Rightarrow>
               ((renderedFiles @
                   [errorFileResult targetPath
                      (EvalCondition (Condition tplSpec) errorMessageItemExtension err)],
                 False), w)
           | Inr condition \<Rightarrow>
               if condition then
                 (case renderAndWriteFile env parameters tmpl templateName targetDir targetPath w of
                    (Some err, w') \<Rightarrow>
                      ((renderedFiles @
                          [errorFileResult targetPath
                             (EvalTemplate targetPath errorMessageItemExtension err)],
                        False), w')
                  | (None, w') \<Rightarrow>
                      ((renderedFiles @ [successFileResult targetPath], allSuccessful), w'))
               else ((renderedFiles, allSuccessful), w)))"

text \<open>
  The loop of \<open>renderSingleTemplate\<close> over \<open>tplSpec.WithItems\<close>. \<open>parameters\<close> is the Go
  map that the caller passed in: \<open>parameters["item"] = item\<close> writes to that one map, so
  the loop returns it as it leaves it.
\<close>

fun renderItems ::
  "'w env \<Rightarrow> TemplateSpec \<Rightarrow> string \<Rightarrow> templatewrapper \<Rightarrow> string \<Rightarrow> nat \<Rightarrow> any list
     \<Rightarrow> params \<Rightarrow> FileResult list \<Rightarrow> bool \<Rightarrow> 'w
     \<Rightarrow> (FileResult list \<times> bool) \<times> params \<times> 'w" where
  "renderItems env tplSpec templateName tmplw targetDir counter [] parameters
       renderedFiles allSuccessful w =
     ((renderedFiles, allSuccessful), parameters, w)"
| "renderItems env tplSpec templateName tmplw targetDir counter (item # rest) parameters
       renderedFiles allSuccessful w =
     (case renderSingleTemplateIteration env tplSpec (parameters(''item'' \<mapsto> item)) templateName
             (''_'' @ Sprintf_d (counter + 1)) ('' for item #'' @ Sprintf_d (counter + 1))
             renderedFiles allSuccessful tmplw targetDir w of
        ((renderedFiles', allSuccessful'), w') \<Rightarrow>
          renderItems env tplSpec templateName tmplw targetDir (counter + 1) rest
            (parameters(''item'' \<mapsto> item)) renderedFiles' allSuccessful' w')"

definition renderSingleTemplate ::
  "'w env \<Rightarrow> TemplateSpec \<Rightarrow> params \<Rightarrow> string \<Rightarrow> string \<Rightarrow> 'w
     \<Rightarrow> (FileResult list \<times> bool) \<times> params \<times> 'w" where
  "renderSingleTemplate env tplSpec parameters sourceDir targetDir w =
     (let templateName = ReplaceAll_slash (RelativeSourcePath tplSpec) in
      case gd_ReadFile env sourceDir (RelativeSourcePath tplSpec) w of
        Inl err \<Rightarrow>
          (([errorFileResult (RelativeTargetPath tplSpec)
               (LoadTemplate (RelativeSourcePath tplSpec) err)], False), parameters, w)
      | Inr templateContents \<Rightarrow>
          (case tw_Parse env (JustCopy tplSpec) templateContents templateName
                  (RelativeSourcePath tplSpec) of
             Inl err \<Rightarrow>
               (([errorFileResult (RelativeTargetPath tplSpec)
                    (ParseTemplate (RelativeSourcePath tplSpec) err)], False), parameters, w)
           | Inr tmplw \<Rightarrow>
               if length (WithItems tplSpec) > 0 then
                 renderItems env tplSpec templateName tmplw targetDir 0 (WithItems tplSpec)
                   parameters [] True w
               else
                 (case renderSingleTemplateIteration env tplSpec parameters templateName [] []
                         [] True tmplw targetDir w of
                    (r, w') \<Rightarrow> (r, parameters, w'))))"

text \<open>
  The loop of \<open>renderAllTemplates\<close> over \<open>genSpec.Templates\<close>; every unit gets the same
  Go map \<open>parameters\<close>, with what the units before it wrote to it.
\<close>

fun renderAllTemplates_loop ::
  "'w env \<Rightarrow> TemplateSpec list \<Rightarrow> params \<Rightarrow> string \<Rightarrow> string \<Rightarrow> FileResult list \<Rightarrow> bool \<Rightarrow> 'w
     \<Rightarrow> (FileResult list \<times> bool) \<times> params \<times> 'w" where
  "renderAllTemplates_loop env [] parameters sourceDir targetDir renderedFiles allSuccessful w =
     ((renderedFiles, allSuccessful), parameters, w)"
| "renderAllTemplates_loop env (tplSpec # rest) parameters sourceDir targetDir renderedFiles
       allSuccessful w =
     (case renderSingleTemplate env tplSpec parameters sourceDir targetDir w of
        ((rendered, success), parameters', w') \<Rightarrow>
          renderAllTemplates_loop env rest parameters' sourceDir targetDir
            (renderedFiles @ rendered) (allSuccessful \<and> success) w')"

definition renderAllTemplates ::
  "'w env \<Rightarrow> GeneratorSpec \<Rightarrow> params \<Rightarrow> string \<Rightarrow> string \<Rightarrow> 'w
     \<Rightarrow> (FileResult list \<times> bool) \<times> 'w" where
  "renderAllTemplates env genSpec parameters sourceDir targetDir w =
     (case renderAllTemplates_loop env (Templates genSpec) parameters sourceDir targetDir
             [] True w of
        (r, parameters', w') \<Rightarrow> (r, w'))"

subsection \<open>The three operations\<close>

definition WriteRenderSpecWithDefaults ::
  "'w env \<Rightarrow> Request \<Rightarrow> string \<Rightarrow> 'w \<Rightarrow> Response \<times> 'w" where
  "WriteRenderSpecWithDefaults env request generatorName w =
     (case gd_ObtainGeneratorSpec env (SourceBaseDir request) generatorName w of
        Inl err \<Rightarrow> (errorResponseToplevel (Opaque err), w)
      | Inr genSpec \<Rightarrow>
          (case constructRenderSpecWithValuesOrDefaults env generatorName genSpec []
                  (VString []) of
             Inl err \<Rightarrow> (errorResponseToplevel err, w)
           | Inr renderSpec \<Rightarrow>
               (case td_WriteRenderSpec env (TargetBaseDir request) renderSpec
                       (RenderSpecFile request) w of
                  (Inl err, w') \<Rightarrow> (errorResponseToplevel (Opaque err), w')
                | (Inr targetFile, w') \<Rightarrow>
                    (successResponse [successFileResult targetFile], w'))))"

text \<open>
  The loop "check for extraneous parameters" over \<open>parameters\<close>, a Go map taken in the
  order in which the loop visits it: the error of the first unknown key.
\<close>

fun extraneousParameter :: "(string \<times> any) list \<Rightarrow> GeneratorSpec \<Rightarrow> error option" where
  "extraneousParameter [] genSpec = None"
| "extraneousParameter ((k, v) # rest) genSpec =
     (if map_of (Variables genSpec) k = None then Some (NotAllowed k)
      else extraneousParameter rest genSpec)"

text \<open>
  Both loops over \<open>genSpec.Variables\<close> take the one order of the list. A run that visits
  the variables in two orders is covered: the first loop, when it succeeds, returns the
  same parameters in every order, and when it fails the second loop does not run.
\<close>

definition WriteRenderSpecWithValues ::
  "'w env \<Rightarrow> Request \<Rightarrow> string \<Rightarrow> (string \<times> any) list \<Rightarrow> 'w \<Rightarrow> Response \<times> 'w" where
  "WriteRenderSpecWithValues env request generatorName parameters w =
     (case gd_ObtainGeneratorSpec env (SourceBaseDir request) generatorName w of
        Inl err \<Rightarrow> (errorResponseToplevel (Opaque err), w)
      | Inr genSpec \<Rightarrow>
          (case constructRenderSpecWithValuesOrDefaults env generatorName genSpec parameters
                  VNil of
             Inl err \<Rightarrow> (errorResponseToplevel err, w)
           | Inr renderSpec \<Rightarrow>
               (case constructAndValidateParameterMap env genSpec renderSpec of
                  Inl err \<Rightarrow> (errorResponseToplevel err, w)
                | Inr validated \<Rightarrow>
                    (case extraneousParameter parameters genSpec of
                       Some err \<Rightarrow> (errorResponseToplevel err, w)
                     | None \<Rightarrow>
                         (case td_WriteRenderSpec env (TargetBaseDir request) renderSpec
                                 (RenderSpecFile request) w of
                            (Inl err, w') \<Rightarrow> (errorResponseToplevel (Opaque err), w')
                          | (Inr targetFile, w') \<Rightarrow>
                              (successResponse [successFileResult targetFile], w'))))))"

definition Render :: "'w env \<Rightarrow> Request \<Rightarrow> 'w \<Rightarrow> Response \<times> 'w" where
  "Render env request w =
     (case td_ObtainRenderSpec env (TargetBaseDir request) (RenderSpecFile request) w of
        Inl err \<Rightarrow> (errorResponseToplevel (Opaque err), w)
      | Inr renderSpec \<Rightarrow>
          (case gd_ObtainGeneratorSpec env (SourceBaseDir request) (GeneratorName renderSpec) w of
             Inl err \<Rightarrow> (errorResponseToplevel (Opaque err), w)
           | Inr genSpec \<Rightarrow>
               (case constructAndValidateParameterMap env genSpec renderSpec of
                  Inl err \<Rightarrow> (errorResponseToplevel err, w)
                | Inr parameters \<Rightarrow>
                    (case renderAllTemplates env genSpec parameters (SourceBaseDir request)
                            (TargetBaseDir request) w of
                       ((renderedFiles, allSuccessful), w') \<Rightarrow>
                         if allSuccessful then (successResponse renderedFiles, w')
                         else (errorResponseRender renderedFiles, w')))))"

section \<open>Notions used in the statements\<close>

text \<open>
  The variables that a range over \<open>genSpec.Variables\<close> visits before \<open>varName\<close>, and
  whether the pass of the validation loop for a variable returns no error.
\<close>

definition earlierVariables :: "string \<Rightarrow> GeneratorSpec \<Rightarrow> (string \<times> VariableSpec) list" where
  "earlierVariables varName genSpec = takeWhile (\<lambda>kv. fst kv \<noteq> varName) (Variables genSpec)"

definition passes :: "'w env \<Rightarrow> RenderSpec \<Rightarrow> string \<times> VariableSpec \<Rightarrow> bool" where
  "passes env renderSpec kv = (\<not> isl (validatedValue env renderSpec (fst kv) (snd kv)))"

text \<open>
  A string default that does not render: the template does not parse, or its execution
  against the empty parameter map fails.
\<close>

definition defaultFails :: "'w env \<Rightarrow> string \<Rightarrow> string \<Rightarrow> bool" where
  "defaultFails env k defaultStr =
     (case template_Parse env (''__defaultvalue_'' @ k) defaultStr of
        Inl err \<Rightarrow> True
      | Inr tmpl \<Rightarrow> isl (tmpl Map.empty))"

text \<open>The errors of the validation loop: a missing value, a pattern, a mismatch.\<close>

definition validationError :: "error \<Rightarrow> bool" where
  "validationError err =
     (case err of
        RequiredMissing v \<Rightarrow> True
      | InvalidPattern v e \<Rightarrow> True
      | PatternMismatch v p \<Rightarrow> True
      | other \<Rightarrow> False)"

text \<open>
  The errors that a file result can carry, and a file result that is itemized: no
  error when it is successful, exactly one error of a file otherwise.
\<close>

definition fileError :: "error \<Rightarrow> bool" where
  "fileError err =
     (case err of
        LoadTemplate src e \<Rightarrow> True
      | ParseTemplate src e \<Rightarrow> True
      | EvalTargetPath p ext e \<Rightarrow> True
      | EvalCondition c ext e \<Rightarrow> True
      | EvalTemplate p ext e \<Rightarrow> True
      | other \<Rightarrow> False)"

definition itemized :: "FileResult \<Rightarrow> bool" where
  "itemized r =
     (if Success_f r then Errors_f r = []
      else (case Errors_f r of [err] \<Rightarrow> fileError err | other \<Rightarrow> False))"

text \<open>
  What the iteration for the item with the given number (from 1) makes of the target
  path: the name of the path template, and the rendering of the path with the item under
  the key \<open>item\<close>.
\<close>

definition itemPath ::
  "'w env \<Rightarrow> TemplateSpec \<Rightarrow> params \<Rightarrow> nat \<Rightarrow> any \<Rightarrow> string \<times> string option" where
  "itemPath env tplSpec parameters n item =
     renderString env (parameters(''item'' \<mapsto> item))
       (ReplaceAll_slash (RelativeSourcePath tplSpec) @ ''_path'' @ ''_'' @ Sprintf_d n)
       (RelativeTargetPath tplSpec)"

section \<open>An instance of the collaborators and libraries, for the examples\<close>

subsection \<open>Regular expressions\<close>

text \<open>
  Regular expressions over characters, with character classes as lists of ranges, matched
  by derivatives. \<open>rexp_regexp r\<close> is the match relation of \<open>r\<close>: the text between
  the two offsets is a word of \<open>r\<close>.
\<close>

datatype rexp = Zero | One | Class "(char \<times> char) list"
  | Alt rexp rexp | Seq rexp rexp | Star rexp

definition in_class :: "char \<Rightarrow> (char \<times> char) list \<Rightarrow> bool" where
  "in_class c ranges =
     list_ex (\<lambda>(lo, hi). (of_char lo :: nat) \<le> of_char c \<and> (of_char c :: nat) \<le> of_char hi) ranges"

primrec nullable :: "rexp \<Rightarrow> bool" where
  "nullable Zero = False"
| "nullable One = True"
| "nullable (Class ranges) = False"
| "nullable (Alt r s) = (nullable r \<or> nullable s)"
| "nullable (Seq r s) = (nullable r \<and> nullable s)"
| "nullable (Star r) = True"

primrec deriv :: "char \<Rightarrow> rexp \<Rightarrow> rexp" where
  "deriv c Zero = Zero"
| "deriv c One = Zero"
| "deriv c (Class ranges) = (if in_class c ranges then One else Zero)"
| "deriv c (Alt r s) = Alt (deriv c r) (deriv c s)"
| "deriv c (Seq r s) =
     (if nullable r then Alt (Seq (deriv c r) s) (deriv c s) else Seq (deriv c r) s)"
| "deriv c (Star r) = Seq (deriv c r) (Star r)"

primrec rexp_matches :: "rexp \<Rightarrow> string \<Rightarrow> bool" where
  "rexp_matches r [] = nullable r"
| "rexp_matches r (c # cs) = rexp_matches (deriv c r) cs"

definition rexp_regexp :: "rexp \<Rightarrow> regexp" where
  "rexp_regexp r s i j = (i \<le> j \<and> j \<le> length s \<and> rexp_matches r (take (j - i) (drop i s)))"

text \<open>The expression \<open>^r$\<close>: a match of \<open>r\<close> from the start of the text to its end.\<close>

definition anchored :: "regexp \<Rightarrow> regexp" where
  "anchored re s i j = (i = 0 \<and> j = length s \<and> re s i j)"

definition letters :: rexp where
  "letters = Class [(CHR ''a'', CHR ''z''), (CHR ''A'', CHR ''Z'')]"

text \<open>
  The patterns of the examples: \<open>[a-zA-Z]+\<close>, \<open>^[a-zA-Z]+$\<close>, and \<open>[\<close>, which Go
  refuses ("missing closing ]").
\<close>

definition demo_Compile :: "string \<Rightarrow> string + regexp" where
  "demo_Compile pattern =
     (if pattern = ''[a-zA-Z]+'' then Inr (rexp_regexp (Seq letters (Star letters)))
      else if pattern = ''^[a-zA-Z]+$'' then Inr (anchored (rexp_regexp (Seq letters (Star letters))))
      else if pattern = ''['' then Inl ''error parsing regexp: missing closing ]''
      else Inl ''pattern outside this instance'')"

subsection \<open>Printing values\<close>

function (sequential) demo_Sprintf_v :: "any \<Rightarrow> string"
  and demo_Sprintf_list :: "any list \<Rightarrow> string"
  and demo_Sprintf_pairs :: "(any \<times> any) list \<Rightarrow> string" where
  "demo_Sprintf_v VNil = ''<nil>''"
| "demo_Sprintf_v (VString s) = s"
| "demo_Sprintf_v (VInt i) = (if i < 0 then ''-'' else []) @ Sprintf_d (nat \<bar>i\<bar>)"
| "demo_Sprintf_v (VBool b) = (if b then ''true'' else ''false'')"
| "demo_Sprintf_v (VList xs) = ''['' @ demo_Sprintf_list xs @ '']''"
| "demo_Sprintf_v (VMap kvs) = ''map['' @ demo_Sprintf_pairs kvs @ '']''"
| "demo_Sprintf_list [] = []"
| "demo_Sprintf_list [x] = demo_Sprintf_v x"
| "demo_Sprintf_list (x # y # ys) = demo_Sprintf_v x @ '' '' @ demo_Sprintf_list (y # ys)"
| "demo_Sprintf_pairs [] = []"
| "demo_Sprintf_pairs [(k, v)] = demo_Sprintf_v k @ '':'' @ demo_Sprintf_v v"
| "demo_Sprintf_pairs ((k, v) # kv # kvs) =
     demo_Sprintf_v k @ '':'' @ demo_Sprintf_v v @ '' '' @ demo_Sprintf_pairs (kv # kvs)"
  by pat_completeness auto
termination
  by (relation "measure (case_sum size (case_sum (size_list size)
        (size_list (size_prod size size))))") auto

subsection \<open>Templates\<close>

text \<open>
  The fragment of \<open>text/template\<close> with literal text and the actions \<open>{{.key}}\<close>: an
  action that is not closed is a parse error, and a key that the parameters do not
  have prints as \<open><no value>\<close>.
\<close>

datatype node = NText string | NField string

fun scan_text :: "string \<Rightarrow> string \<Rightarrow> node list option"
  and scan_action :: "string \<Rightarrow> string \<Rightarrow> node list option" where
  "scan_text acc [] = Some [NText acc]"
| "scan_text acc [c] = Some [NText (acc @ [c])]"
| "scan_text acc (c # d # cs) =
     (if c = CHR ''{'' \<and> d = CHR ''{'' then map_option ((#) (NText acc)) (scan_action [] cs)
      else scan_text (acc @ [c]) (d # cs))"
| "scan_action acc [] = None"
| "scan_action acc [c] = None"
| "scan_action acc (c # d # cs) =
     (if c = CHR ''}'' \<and> d = CHR ''}'' then
        (case acc of
           [] \<Rightarrow> None
         | dot # key \<Rightarrow>
             if dot = CHR ''.'' \<and> key \<noteq> [] then map_option ((#) (NField key)) (scan_text [] cs)
             else None)
      else scan_action (acc @ [c]) (d # cs))"

fun exec_nodes :: "node list \<Rightarrow> params \<Rightarrow> string" where
  "exec_nodes [] parameters = []"
| "exec_nodes (NText s # ns) parameters = s @ exec_nodes ns parameters"
| "exec_nodes (NField k # ns) parameters =
     (case parameters k of
        None \<Rightarrow> ''<no value>''
      | Some VNil \<Rightarrow> ''<no value>''
      | Some v \<Rightarrow> demo_Sprintf_v v) @ exec_nodes ns parameters"

definition demo_template_Parse :: "string \<Rightarrow> string \<Rightarrow> string + template" where
  "demo_template_Parse name contents =
     (case scan_text [] contents of
        None \<Rightarrow> Inl (''template: '' @ name @ '': bad action'')
      | Some ns \<Rightarrow> Inr (\<lambda>parameters. Inr (exec_nodes ns parameters)))"

text \<open>The template wrapper: a copy of the contents, or the template parsed from them.\<close>

definition demo_tw_Parse :: "bool \<Rightarrow> string \<Rightarrow> string \<Rightarrow> string \<Rightarrow> string + templatewrapper" where
  "demo_tw_Parse justCopy contents templateName sourcePath =
     (if justCopy then Inr (\<lambda>name parameters. Inr contents)
      else
        (case demo_template_Parse templateName contents of
           Inl err \<Rightarrow> Inl err
         | Inr tmpl \<Rightarrow> Inr (\<lambda>name. tmpl)))"

subsection \<open>Directories\<close>

text \<open>
  One source directory (generator specs by name, template files by path) and one target
  directory (render specs by file name, and the files written, the latest first).
\<close>

record disk =
  generators :: "(string \<times> GeneratorSpec) list"
  sources :: "(string \<times> string) list"
  renderSpecs :: "(string \<times> RenderSpec) list"
  written :: "(string \<times> string) list"

definition demoEnv :: "disk env" where
  "demoEnv =
     \<lparr>gd_ObtainGeneratorSpec = (\<lambda>dir name w.
        case map_of (generators w) name of
          None \<Rightarrow> Inl ''error reading generator spec file''
        | Some genSpec \<Rightarrow> Inr genSpec),
      gd_ReadFile = (\<lambda>dir path w.
        case map_of (sources w) path of
          None \<Rightarrow> Inl ''no such file''
        | Some contents \<Rightarrow> Inr contents),
      td_ObtainRenderSpec = (\<lambda>dir file w.
        case map_of (renderSpecs w) file of
          None \<Rightarrow> Inl ''error reading render spec file''
        | Some renderSpec \<Rightarrow> Inr renderSpec),
      td_WriteRenderSpec = (\<lambda>dir renderSpec file w.
        (Inr file, w\<lparr>renderSpecs := (file, renderSpec) # renderSpecs w\<rparr>)),
      td_WriteFile = (\<lambda>dir path contents w.
        (None, w\<lparr>written := (path, contents) # written w\<rparr>)),
      tw_Parse = demo_tw_Parse,
      template_Parse = demo_template_Parse,
      regexp_Compile = demo_Compile,
      Sprintf_v = demo_Sprintf_v\<rparr>"

subsection \<open>Fixtures\<close>

text \<open>
  The generator \<open>docker\<close> of the acceptance tests (one template, the variable
  \<open>serviceName\<close> with the pattern \<open>[a-zA-Z]+\<close>), a generator whose pattern is not a
  regular expression, and a render spec that gives \<open>serviceName\<close> a value.
\<close>

definition serviceNameVar :: VariableSpec where
  "serviceNameVar = \<lparr>Description = ''The name of the service to be rendered'',
     DefaultValue = VNil, ValidationPattern = ''[a-zA-Z]+''\<rparr>"

definition dockerSpec :: GeneratorSpec where
  "dockerSpec =
     \<lparr>Templates = [\<lparr>RelativeSourcePath = ''Dockerfile.tmpl'', RelativeTargetPath = ''Dockerfile'',
         Condition = [], WithItems = [], JustCopy = False\<rparr>],
      Variables = [(''serviceName'', serviceNameVar)]\<rparr>"

definition brokenVar :: VariableSpec where
  "brokenVar = \<lparr>Description = [], DefaultValue = VNil, ValidationPattern = ''[''\<rparr>"

definition brokenSpec :: GeneratorSpec where
  "brokenSpec = \<lparr>Templates = [], Variables = [(''serviceName'', brokenVar)]\<rparr>"

definition dockerValues :: "string \<Rightarrow> RenderSpec" where
  "dockerValues name = \<lparr>GeneratorName = ''docker'', Parameters = [''serviceName'' \<mapsto> VString name]\<rparr>"

text \<open>
  A target directory with nothing in it, a unit whose condition is the parameter \<open>flag\<close>,
  and a template wrapper that copies a Dockerfile.
\<close>

definition emptyDisk :: disk where
  "emptyDisk = \<lparr>generators = [], sources = [], renderSpecs = [], written = []\<rparr>"

definition gatedTemplate :: TemplateSpec where
  "gatedTemplate = \<lparr>RelativeSourcePath = ''Dockerfile.tmpl'', RelativeTargetPath = ''Dockerfile'',
     Condition = ''{{.flag}}'', WithItems = [], JustCopy = True\<rparr>"

definition dockerfileCopy :: templatewrapper where
  "dockerfileCopy = (\<lambda>name parameters. Inr ''FROM scratch'')"

text \<open>
  The generator \<open>main\<close> of the acceptance tests, with a string default and two structured
  defaults, and a generator whose default is a template with an action that is not closed.
\<close>

definition helloMessage :: VariableSpec where
  "helloMessage = \<lparr>Description = ''A message to be inserted in the code.'',
     DefaultValue = VString ''hello world'', ValidationPattern = []\<rparr>"

definition structureList :: VariableSpec where
  "structureList = \<lparr>Description = ''A structured parameter that is a list at top level'',
     DefaultValue = VList [VString ''one'', VString ''two'',
       VMap [(VString ''three'', VList [VString ''sub 1'', VString ''sub 2''])]],
     ValidationPattern = []\<rparr>"

definition structureMap :: VariableSpec where
  "structureMap = \<lparr>Description = ''A structured parameter that is a map at top level'',
     DefaultValue = VMap [(VString ''species'', VString ''felis silvestris''),
       (VString ''commonName'', VString ''European wildcat'')],
     ValidationPattern = []\<rparr>"

definition mainSpec :: GeneratorSpec where
  "mainSpec =
     \<lparr>Templates = [\<lparr>RelativeSourcePath = ''main.txt.tmpl'', RelativeTargetPath = ''main.txt'',
         Condition = [], WithItems = [], JustCopy = False\<rparr>],
      Variables = [(''helloMessage'', helloMessage), (''structureList'', structureList),
        (''structureMap'', structureMap)]\<rparr>"

definition unclosedDefault :: VariableSpec where
  "unclosedDefault = \<lparr>Description = [], DefaultValue = VString ''{{'', ValidationPattern = []\<rparr>"

definition unclosedSpec :: GeneratorSpec where
  "unclosedSpec = \<lparr>Templates = [], Variables = [(''serviceName'', unclosedDefault)]\<rparr>"

text \<open>
  A generator whose default does not match its own pattern and whose second variable has
  no default; a request; and a source directory with the generators of the examples.
\<close>

definition fqdnVar :: VariableSpec where
  "fqdnVar = \<lparr>Description = [], DefaultValue = VString ''your fqdn'',
     ValidationPattern = ''^[a-zA-Z]+$''\<rparr>"

definition ownerVar :: VariableSpec where
  "ownerVar = \<lparr>Description = [], DefaultValue = VNil, ValidationPattern = ''[a-zA-Z]+''\<rparr>"

definition fqdnSpec :: GeneratorSpec where
  "fqdnSpec = \<lparr>Templates = [], Variables = [(''fqdn'', fqdnVar), (''owner'', ownerVar)]\<rparr>"

definition theRequest :: Request where
  "theRequest = \<lparr>SourceBaseDir = ''generators'', TargetBaseDir = ''out'',
     RenderSpecFile = ''render.yaml''\<rparr>"

definition sourceDisk :: disk where
  "sourceDisk =
     \<lparr>generators = [(''docker'', dockerSpec), (''main'', mainSpec), (''fqdn'', fqdnSpec)],
      sources = [(''Dockerfile.tmpl'', ''FROM scratch''), (''main.txt.tmpl'', ''{{.helloMessage}}'')],
      renderSpecs = [], written = []\<rparr>"

text \<open>
  A file system on which the generator \<open>docker\<close> renders, and the same without the
  template file.
\<close>

definition dockerDisk :: disk where
  "dockerDisk =
     \<lparr>generators = [(''docker'', dockerSpec)],
      sources = [(''Dockerfile.tmpl'', ''FROM scratch'')],
      renderSpecs = [(''render.yaml'', dockerValues ''svc'')],
      written = []\<rparr>"

definition missingTemplateDisk :: disk where
  "missingTemplateDisk = dockerDisk\<lparr>sources := []\<rparr>"

text \<open>
  The unit of the example of the spec, with the items 1, 2, 3 and the target path
  \<open>out_{{.item}}.txt\<close>; a generator whose target path has an action that is not closed; and
  a generator with a unit over the items \<open>a\<close>, \<open>b\<close>, and a unit with no items whose
  target path and body name \<open>item\<close>, in both orders.
\<close>

definition countTemplate :: TemplateSpec where
  "countTemplate = \<lparr>RelativeSourcePath = ''count.tmpl'', RelativeTargetPath = ''out_{{.item}}.txt'',
     Condition = [], WithItems = [VInt 1, VInt 2, VInt 3], JustCopy = False\<rparr>"

definition countDisk :: disk where
  "countDisk = \<lparr>generators = [], sources = [(''count.tmpl'', ''number {{.item}}'')],
     renderSpecs = [], written = []\<rparr>"

definition unclosedPathSpec :: GeneratorSpec where
  "unclosedPathSpec =
     \<lparr>Templates = [\<lparr>RelativeSourcePath = ''Dockerfile.tmpl'', RelativeTargetPath = ''{{'',
         Condition = [], WithItems = [], JustCopy = False\<rparr>],
      Variables = []\<rparr>"

definition unclosedPathDisk :: disk where
  "unclosedPathDisk =
     \<lparr>generators = [(''unclosed'', unclosedPathSpec)],
      sources = [(''Dockerfile.tmpl'', ''FROM scratch'')],
      renderSpecs = [(''render.yaml'', \<lparr>GeneratorName = ''unclosed'', Parameters = Map.empty\<rparr>)],
      written = []\<rparr>"

definition eachTemplate :: TemplateSpec where
  "eachTemplate = \<lparr>RelativeSourcePath = ''each.tmpl'', RelativeTargetPath = ''each_{{.item}}.txt'',
     Condition = [], WithItems = [VString ''a'', VString ''b''], JustCopy = False\<rparr>"

definition onceTemplate :: TemplateSpec where
  "onceTemplate = \<lparr>RelativeSourcePath = ''once.tmpl'', RelativeTargetPath = ''once_{{.item}}.txt'',
     Condition = [], WithItems = [], JustCopy = False\<rparr>"

definition itemsDisk :: "TemplateSpec list \<Rightarrow> disk" where
  "itemsDisk units =
     \<lparr>generators = [(''items'', \<lparr>Templates = units, Variables = []\<rparr>)],
      sources = [(''each.tmpl'', ''item {{.item}}''), (''once.tmpl'', ''item {{.item}}'')],
      renderSpecs = [(''render.yaml'', \<lparr>GeneratorName = ''items'', Parameters = Map.empty\<rparr>)],
      written = []\<rparr>"

section \<open>Resolve-and-validate\<close>

text \<open>The searches of the examples, evaluated.\<close>

lemma letters_search:
  "re_MatchString (rexp_regexp (Seq letters (Star letters))) ''svc-1''"
  "\<not> fullMatch (rexp_regexp (Seq letters (Star letters))) ''svc-1''"
  "re_MatchString (rexp_regexp (Seq letters (Star letters))) ''svc''"
  "\<not> re_MatchString (rexp_regexp (Seq letters (Star letters))) ''123''"
  by code_simp+

lemma anchored_letters:
  "\<not> re_MatchString (anchored (rexp_regexp (Seq letters (Star letters)))) ''your fqdn''"
  by code_simp

lemmas demo_defs = demoEnv_def demo_Compile_def demo_template_Parse_def demo_tw_Parse_def
  letters_search
  serviceNameVar_def dockerSpec_def brokenVar_def brokenSpec_def dockerValues_def

lemma validate_loop_other:
  "constructAndValidate_loop env rs vars ps0 = Inr ps \<Longrightarrow> k \<notin> fst ` set vars \<Longrightarrow> ps k = ps0 k"
proof (induction vars arbitrary: ps0)
  case Nil
  then show ?case by simp
next
  case (Cons kv vars)
  obtain k' v' where kv: "kv = (k', v')" by (cases kv)
  from Cons.prems kv obtain val where
    val: "validatedValue env rs k' v' = Inr val"
    and rest: "constructAndValidate_loop env rs vars (ps0(k' \<mapsto> val)) = Inr ps"
    by (auto split: sum.splits)
  from Cons.prems kv have "k \<noteq> k'" and "k \<notin> fst ` set vars" by auto
  with Cons.IH [OF rest] show ?case by simp
qed

lemma validate_loop_Inr:
  "constructAndValidate_loop env rs vars ps0 = Inr ps \<Longrightarrow> (k, v) \<in> set vars \<Longrightarrow>
     distinct (map fst vars) \<Longrightarrow> validatedValue env rs k v = Inr (the (ps k)) \<and> ps k \<noteq> None"
proof (induction vars arbitrary: ps0)
  case Nil
  then show ?case by simp
next
  case (Cons kv vars)
  obtain k' v' where kv: "kv = (k', v')" by (cases kv)
  from Cons.prems kv obtain val where
    val: "validatedValue env rs k' v' = Inr val"
    and rest: "constructAndValidate_loop env rs vars (ps0(k' \<mapsto> val)) = Inr ps"
    by (auto split: sum.splits)
  show ?case
  proof (cases "(k, v) = (k', v')")
    case True
    with Cons.prems kv have "k' \<notin> fst ` set vars" by auto
    from validate_loop_other [OF rest this] have "ps k' = Some val" by simp
    with True val show ?thesis by simp
  next
    case False
    with Cons.prems kv have "(k, v) \<in> set vars" "distinct (map fst vars)" by auto
    from Cons.IH [OF rest this] show ?thesis .
  qed
qed

lemma validate_loop_fails:
  "(k, v) \<in> set vars \<Longrightarrow> isl (validatedValue env rs k v) \<Longrightarrow>
     isl (constructAndValidate_loop env rs vars ps0)"
proof (induction vars arbitrary: ps0)
  case Nil
  then show ?case by simp
next
  case (Cons kv vars)
  obtain k' v' where kv: "kv = (k', v')" by (cases kv)
  show ?case
  proof (cases "validatedValue env rs k' v'")
    case (Inl e)
    with kv show ?thesis by simp
  next
    case (Inr val)
    with Cons.prems kv have "(k, v) \<in> set vars" by auto
    from Cons.IH [OF this Cons.prems(2)] Inr kv show ?thesis by simp
  qed
qed

lemma validate_loop_first:
  "list_all (passes env rs) pre \<Longrightarrow> validatedValue env rs k v = Inl e \<Longrightarrow>
     constructAndValidate_loop env rs (pre @ (k, v) # post) ps0 = Inl e"
proof (induction pre arbitrary: ps0)
  case Nil
  then show ?case by simp
next
  case (Cons kv pre)
  obtain k' v' where kv: "kv = (k', v')" by (cases kv)
  from Cons.prems kv obtain val where "validatedValue env rs k' v' = Inr val"
    by (cases "validatedValue env rs k' v'") (auto simp: passes_def)
  with Cons kv show ?case by simp
qed

lemma split_at_variable:
  "(k, v) \<in> set vars \<Longrightarrow> distinct (map fst vars) \<Longrightarrow>
     \<exists>post. vars = takeWhile (\<lambda>kv. fst kv \<noteq> k) vars @ (k, v) # post"
proof (induction vars)
  case Nil
  then show ?case by simp
next
  case (Cons kv vars)
  show ?case
  proof (cases "fst kv = k")
    case True
    with Cons.prems have "kv = (k, v)" by (cases kv) (auto simp: image_iff)
    then show ?thesis by simp
  next
    case False
    with Cons.prems have "(k, v) \<in> set vars" "distinct (map fst vars)" by auto
    from Cons.IH [OF this] obtain post where
      eq: "vars = takeWhile (\<lambda>kv. fst kv \<noteq> k) vars @ (k, v) # post" ..
    from False have "takeWhile (\<lambda>kv. fst kv \<noteq> k) (kv # vars) =
        kv # takeWhile (\<lambda>kv. fst kv \<noteq> k) vars"
      by simp
    with eq have "kv # vars = takeWhile (\<lambda>kv. fst kv \<noteq> k) (kv # vars) @ (k, v) # post"
      by (metis append_Cons)
    then show ?thesis ..
  qed
qed

lemma validate_fails_first:
  assumes "distinct (map fst (Variables genSpec))"
    and "(k, v) \<in> set (Variables genSpec)"
    and "validatedValue env rs k v = Inl e"
  shows "isl (constructAndValidateParameterMap env genSpec rs)"
    and "list_all (passes env rs) (earlierVariables k genSpec) \<Longrightarrow>
      constructAndValidateParameterMap env genSpec rs = Inl e"
proof -
  from assms(3) have "isl (validatedValue env rs k v)" by simp
  from validate_loop_fails [OF assms(2) this]
  show "isl (constructAndValidateParameterMap env genSpec rs)"
    by (simp add: constructAndValidateParameterMap_def)
next
  assume ok: "list_all (passes env rs) (earlierVariables k genSpec)"
  from split_at_variable [OF assms(2) assms(1)] obtain post where
    "Variables genSpec = earlierVariables k genSpec @ (k, v) # post"
    by (auto simp: earlierVariables_def)
  with validate_loop_first [OF ok assms(3), of post Map.empty]
  show "constructAndValidateParameterMap env genSpec rs = Inl e"
    by (simp add: constructAndValidateParameterMap_def)
qed

lemma validateValue_pattern:
  assumes "val \<noteq> VNil" and "ValidationPattern varSpec \<noteq> []"
  shows "validateValue env varName varSpec val =
     (case regexp_Compile env (ValidationPattern varSpec) of
        Inl e \<Rightarrow> Some (InvalidPattern varName e)
      | Inr re \<Rightarrow>
          if re_MatchString re (Sprintf_v env val) then None
          else Some (PatternMismatch varName (ValidationPattern varSpec)))"
  using assms by (simp add: validateValue_def regexp_MatchString_def split: sum.splits)

text \<open>
  C1, as amended. In \<open>constructAndValidateParameterMap\<close>, for every variable with a
  non-empty validation pattern: when the call succeeds, the resolved value is in the
  parameter map, the pattern compiles, and the stringified value contains a match of
  the pattern (\<open>regexp.MatchString\<close> searches; it does not ask for a match of the whole
  value). A resolved, non-nil value that contains no match makes the call fail, and so
  does a pattern that does not compile; the error returned is the one of the first
  variable in iteration order whose pass fails, which for this variable is the
  pattern-violation error naming the variable and the pattern, respectively the
  spec-authoring error naming the variable.
\<close>

theorem C1_validation_searches_for_pattern:
  assumes "distinct (map fst (Variables genSpec))"
    and "(varName, varSpec) \<in> set (Variables genSpec)"
    and "ValidationPattern varSpec \<noteq> []"
  shows
    "(\<forall>ps. constructAndValidateParameterMap env genSpec renderSpec = Inr ps \<longrightarrow>
        (\<exists>val re. resolveValue env renderSpec varName varSpec = Inr val \<and> ps varName = Some val \<and>
           regexp_Compile env (ValidationPattern varSpec) = Inr re \<and>
           re_MatchString re (Sprintf_v env val)))
     \<and> (\<forall>val re. resolveValue env renderSpec varName varSpec = Inr val \<and> val \<noteq> VNil \<and>
           regexp_Compile env (ValidationPattern varSpec) = Inr re \<and>
           \<not> re_MatchString re (Sprintf_v env val) \<longrightarrow>
         isl (constructAndValidateParameterMap env genSpec renderSpec) \<and>
         (list_all (passes env renderSpec) (earlierVariables varName genSpec) \<longrightarrow>
            constructAndValidateParameterMap env genSpec renderSpec =
              Inl (PatternMismatch varName (ValidationPattern varSpec))))
     \<and> (\<forall>val e. resolveValue env renderSpec varName varSpec = Inr val \<and> val \<noteq> VNil \<and>
           regexp_Compile env (ValidationPattern varSpec) = Inl e \<longrightarrow>
         isl (constructAndValidateParameterMap env genSpec renderSpec) \<and>
         (list_all (passes env renderSpec) (earlierVariables varName genSpec) \<longrightarrow>
            constructAndValidateParameterMap env genSpec renderSpec =
              Inl (InvalidPattern varName e)))"
proof (intro conjI allI impI)
  fix ps
  assume "constructAndValidateParameterMap env genSpec renderSpec = Inr ps"
  then have "constructAndValidate_loop env renderSpec (Variables genSpec) Map.empty = Inr ps"
    by (simp add: constructAndValidateParameterMap_def)
  from validate_loop_Inr [OF this assms(2) assms(1)]
  obtain val where ps: "ps varName = Some val"
    and vv: "validatedValue env renderSpec varName varSpec = Inr val"
    by auto
  from vv have res: "resolveValue env renderSpec varName varSpec = Inr val"
    and ok: "validateValue env varName varSpec val = None"
    by (auto simp: validatedValue_def split: sum.splits option.splits)
  from ok have "val \<noteq> VNil" by (auto simp: validateValue_def)
  from ok validateValue_pattern [OF this assms(3), of env varName]
  obtain re where "regexp_Compile env (ValidationPattern varSpec) = Inr re"
    and "re_MatchString re (Sprintf_v env val)"
    by (auto split: sum.splits if_splits)
  with ps res
  show "\<exists>val re. resolveValue env renderSpec varName varSpec = Inr val \<and> ps varName = Some val \<and>
           regexp_Compile env (ValidationPattern varSpec) = Inr re \<and>
           re_MatchString re (Sprintf_v env val)"
    by blast
next
  fix val re
  assume h: "resolveValue env renderSpec varName varSpec = Inr val \<and> val \<noteq> VNil \<and>
           regexp_Compile env (ValidationPattern varSpec) = Inr re \<and>
           \<not> re_MatchString re (Sprintf_v env val)"
  then have vv: "validatedValue env renderSpec varName varSpec =
      Inl (PatternMismatch varName (ValidationPattern varSpec))"
    using validateValue_pattern [OF _ assms(3), of val env varName]
    by (simp add: validatedValue_def)
  from validate_fails_first(1) [OF assms(1) assms(2) vv]
  show "isl (constructAndValidateParameterMap env genSpec renderSpec)" .
  assume "list_all (passes env renderSpec) (earlierVariables varName genSpec)"
  from validate_fails_first(2) [OF assms(1) assms(2) vv this]
  show "constructAndValidateParameterMap env genSpec renderSpec =
              Inl (PatternMismatch varName (ValidationPattern varSpec))" .
next
  fix val e
  assume h: "resolveValue env renderSpec varName varSpec = Inr val \<and> val \<noteq> VNil \<and>
           regexp_Compile env (ValidationPattern varSpec) = Inl e"
  then have vv: "validatedValue env renderSpec varName varSpec = Inl (InvalidPattern varName e)"
    using validateValue_pattern [OF _ assms(3), of val env varName]
    by (simp add: validatedValue_def)
  from validate_fails_first(1) [OF assms(1) assms(2) vv]
  show "isl (constructAndValidateParameterMap env genSpec renderSpec)" .
  assume "list_all (passes env renderSpec) (earlierVariables varName genSpec)"
  from validate_fails_first(2) [OF assms(1) assms(2) vv this]
  show "constructAndValidateParameterMap env genSpec renderSpec = Inl (InvalidPattern varName e)" .
qed



text \<open>
  C1 as stated fails: \<open>svc-1\<close> is accepted for the pattern \<open>[a-zA-Z]+\<close>, which it
  contains a match of and does not fully match.
\<close>

theorem C1_counterexample:
  "\<not> isl (constructAndValidateParameterMap demoEnv dockerSpec (dockerValues ''svc-1''))
   \<and> projr (constructAndValidateParameterMap demoEnv dockerSpec (dockerValues ''svc-1''))
        ''serviceName'' = Some (VString ''svc-1'')
   \<and> ValidationPattern serviceNameVar = ''[a-zA-Z]+''
   \<and> \<not> isl (regexp_Compile demoEnv ''[a-zA-Z]+'')
   \<and> \<not> fullMatch (projr (regexp_Compile demoEnv ''[a-zA-Z]+''))
          (Sprintf_v demoEnv (VString ''svc-1''))"
  by (simp add: demo_defs constructAndValidateParameterMap_def validatedValue_def
      resolveValue_def validateValue_def regexp_MatchString_def)

text \<open>
  The theorem at the generator \<open>docker\<close>: \<open>svc\<close> is accepted, \<open>123\<close> is refused with
  the pattern-violation error, and the pattern \<open>[\<close> gives the spec-authoring error.
\<close>

theorem C1_witness:
  "distinct (map fst (Variables dockerSpec))
   \<and> (''serviceName'', serviceNameVar) \<in> set (Variables dockerSpec)
   \<and> ValidationPattern serviceNameVar \<noteq> []
   \<and> (\<exists>re. regexp_Compile demoEnv ''[a-zA-Z]+'' = Inr re \<and> re_MatchString re ''svc''
        \<and> \<not> isl (constructAndValidateParameterMap demoEnv dockerSpec (dockerValues ''svc'')))
   \<and> constructAndValidateParameterMap demoEnv dockerSpec (dockerValues ''123'') =
        Inl (PatternMismatch ''serviceName'' ''[a-zA-Z]+'')
   \<and> constructAndValidateParameterMap demoEnv brokenSpec (dockerValues ''svc'') =
        Inl (InvalidPattern ''serviceName'' ''error parsing regexp: missing closing ]'')"
proof -
  have d: "distinct (map fst (Variables dockerSpec))"
    and m: "(''serviceName'', serviceNameVar) \<in> set (Variables dockerSpec)"
    and p: "ValidationPattern serviceNameVar \<noteq> []"
    by (simp_all add: demo_defs)
  have d': "distinct (map fst (Variables brokenSpec))"
    and m': "(''serviceName'', brokenVar) \<in> set (Variables brokenSpec)"
    and p': "ValidationPattern brokenVar \<noteq> []"
    by (simp_all add: demo_defs)
  have ok: "constructAndValidateParameterMap demoEnv dockerSpec (dockerValues ''svc'') =
      Inr [''serviceName'' \<mapsto> VString ''svc'']"
    by (simp add: demo_defs constructAndValidateParameterMap_def validatedValue_def
        resolveValue_def validateValue_def regexp_MatchString_def)
  from C1_validation_searches_for_pattern [OF d m p, of demoEnv "dockerValues ''svc''"] ok
  have a: "\<exists>re. regexp_Compile demoEnv ''[a-zA-Z]+'' = Inr re \<and> re_MatchString re ''svc''"
    by (auto simp: demo_defs)
  have "resolveValue demoEnv (dockerValues ''123'') ''serviceName'' serviceNameVar =
          Inr (VString ''123'') \<and> VString ''123'' \<noteq> VNil \<and>
        regexp_Compile demoEnv (ValidationPattern serviceNameVar) =
          Inr (rexp_regexp (Seq letters (Star letters))) \<and>
        \<not> re_MatchString (rexp_regexp (Seq letters (Star letters)))
            (Sprintf_v demoEnv (VString ''123''))"
    by (simp add: demo_defs resolveValue_def)
  moreover have "list_all (passes demoEnv (dockerValues ''123''))
      (earlierVariables ''serviceName'' dockerSpec)"
    by (simp add: earlierVariables_def demo_defs)
  ultimately have b: "constructAndValidateParameterMap demoEnv dockerSpec (dockerValues ''123'') =
      Inl (PatternMismatch ''serviceName'' (ValidationPattern serviceNameVar))"
    using C1_validation_searches_for_pattern [OF d m p, of demoEnv "dockerValues ''123''"]
    by blast
  have "resolveValue demoEnv (dockerValues ''svc'') ''serviceName'' brokenVar =
          Inr (VString ''svc'') \<and> VString ''svc'' \<noteq> VNil \<and>
        regexp_Compile demoEnv (ValidationPattern brokenVar) =
          Inl ''error parsing regexp: missing closing ]''"
    by (simp add: demo_defs resolveValue_def)
  moreover have "list_all (passes demoEnv (dockerValues ''svc''))
      (earlierVariables ''serviceName'' brokenSpec)"
    by (simp add: earlierVariables_def demo_defs)
  ultimately have c: "constructAndValidateParameterMap demoEnv brokenSpec (dockerValues ''svc'') =
      Inl (InvalidPattern ''serviceName'' ''error parsing regexp: missing closing ]'')"
    using C1_validation_searches_for_pattern [OF d' m' p', of demoEnv "dockerValues ''svc''"]
    by blast
  from d m p a ok b c show ?thesis by (simp add: serviceNameVar_def)
qed

section \<open>Conditions\<close>

lemma evaluateCondition_empty: "evaluateCondition env [] parameters n = Inr True"
  by (simp add: evaluateCondition_def)

lemma evaluateCondition_rendered:
  "c \<noteq> [] \<Longrightarrow> renderString env parameters n c = (rendered, None) \<Longrightarrow>
     evaluateCondition env c parameters n = Inr (rendered \<notin> {''false'', ''0'', ''no'', ''skip''})"
  by (simp add: evaluateCondition_def)

lemma iteration_condition:
  assumes "renderString env parameters (templateName @ ''_path'' @ ext)
             (RelativeTargetPath tplSpec) = (targetPath, None)"
    and "evaluateCondition env (Condition tplSpec) parameters
           (templateName @ ''_condition'' @ ext) = Inr b"
  shows "renderSingleTemplateIteration env tplSpec parameters templateName ext iext
           renderedFiles allSuccessful tmpl targetDir w =
         (if b then
            (case renderAndWriteFile env parameters tmpl templateName targetDir targetPath w of
               (Some err, w') \<Rightarrow>
                 ((renderedFiles @ [errorFileResult targetPath (EvalTemplate targetPath iext err)],
                   False), w')
             | (None, w') \<Rightarrow> ((renderedFiles @ [successFileResult targetPath], allSuccessful), w'))
          else ((renderedFiles, allSuccessful), w))"
  using assms by (simp add: renderSingleTemplateIteration_def)

text \<open>
  C2. In an iteration whose target path renders, the condition is evaluated so: the empty
  condition is true; any other condition is rendered against the parameters, and the
  rendered text is compared with the four words \<open>false\<close>, \<open>0\<close>, \<open>no\<close> and \<open>skip\<close> by
  equality of strings. If it is one of them the iteration leaves the list of file
  results, the success flag and the files as they are; otherwise the body is rendered and
  written, and exactly one file result for the rendered path is appended, successful
  exactly if rendering and writing did not fail.
\<close>

theorem C2_condition_decides_iteration:
  assumes "renderString env parameters (templateName @ ''_path'' @ ext)
             (RelativeTargetPath tplSpec) = (targetPath, None)"
    and "Condition tplSpec \<noteq> [] \<longrightarrow>
         renderString env parameters (templateName @ ''_condition'' @ ext) (Condition tplSpec) =
           (rendered, None)"
  shows "evaluateCondition env (Condition tplSpec) parameters (templateName @ ''_condition'' @ ext) =
           Inr (Condition tplSpec = [] \<or> rendered \<notin> {''false'', ''0'', ''no'', ''skip''})
     \<and> (Condition tplSpec \<noteq> [] \<and> rendered \<in> {''false'', ''0'', ''no'', ''skip''} \<longrightarrow>
          renderSingleTemplateIteration env tplSpec parameters templateName ext iext
            renderedFiles allSuccessful tmpl targetDir w = ((renderedFiles, allSuccessful), w))
     \<and> (Condition tplSpec = [] \<or> rendered \<notin> {''false'', ''0'', ''no'', ''skip''} \<longrightarrow>
          (\<exists>r. renderSingleTemplateIteration env tplSpec parameters templateName ext iext
                 renderedFiles allSuccessful tmpl targetDir w =
               ((renderedFiles @ [r], allSuccessful \<and> Success_f r),
                snd (renderAndWriteFile env parameters tmpl templateName targetDir targetPath w))
             \<and> RelativeFilePath r = targetPath
             \<and> Success_f r =
                 (fst (renderAndWriteFile env parameters tmpl templateName targetDir targetPath w)
                    = None)))"
proof -
  let ?b = "Condition tplSpec = [] \<or> rendered \<notin> {''false'', ''0'', ''no'', ''skip''}"
  have ev: "evaluateCondition env (Condition tplSpec) parameters
      (templateName @ ''_condition'' @ ext) = Inr ?b"
  proof (cases "Condition tplSpec = []")
    case True
    then show ?thesis by (simp add: evaluateCondition_empty)
  next
    case False
    with assms(2) evaluateCondition_rendered [OF False, of env parameters _ rendered]
    show ?thesis by simp
  qed
  note it = iteration_condition [OF assms(1) ev, of iext renderedFiles allSuccessful tmpl targetDir w]
  have skip: "Condition tplSpec \<noteq> [] \<and> rendered \<in> {''false'', ''0'', ''no'', ''skip''} \<longrightarrow>
          renderSingleTemplateIteration env tplSpec parameters templateName ext iext
            renderedFiles allSuccessful tmpl targetDir w = ((renderedFiles, allSuccessful), w)"
    using it by auto
  have rend: "?b \<longrightarrow>
          (\<exists>r. renderSingleTemplateIteration env tplSpec parameters templateName ext iext
                 renderedFiles allSuccessful tmpl targetDir w =
               ((renderedFiles @ [r], allSuccessful \<and> Success_f r),
                snd (renderAndWriteFile env parameters tmpl templateName targetDir targetPath w))
             \<and> RelativeFilePath r = targetPath
             \<and> Success_f r =
                 (fst (renderAndWriteFile env parameters tmpl templateName targetDir targetPath w)
                    = None))"
  proof
    assume b: ?b
    show "\<exists>r. renderSingleTemplateIteration env tplSpec parameters templateName ext iext
                 renderedFiles allSuccessful tmpl targetDir w =
               ((renderedFiles @ [r], allSuccessful \<and> Success_f r),
                snd (renderAndWriteFile env parameters tmpl templateName targetDir targetPath w))
             \<and> RelativeFilePath r = targetPath
             \<and> Success_f r =
                 (fst (renderAndWriteFile env parameters tmpl templateName targetDir targetPath w)
                    = None)"
    proof (cases "renderAndWriteFile env parameters tmpl templateName targetDir targetPath w")
      case (Pair e w')
      show ?thesis
      proof (cases e)
        case None
        with Pair b it show ?thesis
          by (intro exI [of _ "successFileResult targetPath"])
            (simp add: successFileResult_def)
      next
        case (Some err)
        with Pair b it show ?thesis
          by (intro exI [of _ "errorFileResult targetPath (EvalTemplate targetPath iext err)"])
            (simp add: errorFileResult_def)
      qed
    qed
  qed
  from ev skip rend show ?thesis by blast
qed


text \<open>
  The theorem at a unit with the condition \<open>{{.flag}}\<close>: \<open>skip\<close> gives no file result,
  \<open>SKIP\<close> gives the file.
\<close>

lemmas demo_defs2 = demoEnv_def demo_template_Parse_def gatedTemplate_def dockerfileCopy_def
  emptyDisk_def renderString_def renderAndWriteFile_def

theorem C2_witness:
  "renderString demoEnv [''flag'' \<mapsto> VString ''skip''] (''Dockerfile.tmpl'' @ ''_path'' @ [])
     (RelativeTargetPath gatedTemplate) = (''Dockerfile'', None)
   \<and> Condition gatedTemplate \<noteq> []
   \<and> renderString demoEnv [''flag'' \<mapsto> VString ''skip''] (''Dockerfile.tmpl'' @ ''_condition'' @ [])
       (Condition gatedTemplate) = (''skip'', None)
   \<and> renderSingleTemplateIteration demoEnv gatedTemplate [''flag'' \<mapsto> VString ''skip'']
       ''Dockerfile.tmpl'' [] [] [] True dockerfileCopy ''out'' emptyDisk = (([], True), emptyDisk)
   \<and> renderString demoEnv [''flag'' \<mapsto> VString ''SKIP''] (''Dockerfile.tmpl'' @ ''_condition'' @ [])
       (Condition gatedTemplate) = (''SKIP'', None)
   \<and> (\<exists>r. fst (renderSingleTemplateIteration demoEnv gatedTemplate [''flag'' \<mapsto> VString ''SKIP'']
          ''Dockerfile.tmpl'' [] [] [] True dockerfileCopy ''out'' emptyDisk) = ([r], True)
        \<and> RelativeFilePath r = ''Dockerfile'' \<and> Success_f r)"
proof -
  let ?skip = "[''flag'' \<mapsto> VString ''skip'']" and ?SKIP = "[''flag'' \<mapsto> VString ''SKIP'']"
  have path: "renderString demoEnv ps (''Dockerfile.tmpl'' @ ''_path'' @ [])
      (RelativeTargetPath gatedTemplate) = (''Dockerfile'', None)" for ps
    by (simp add: demo_defs2)
  have ne: "Condition gatedTemplate \<noteq> []"
    by (simp add: gatedTemplate_def)
  have c1: "renderString demoEnv ?skip (''Dockerfile.tmpl'' @ ''_condition'' @ [])
      (Condition gatedTemplate) = (''skip'', None)"
    by (simp add: demo_defs2)
  have c2: "renderString demoEnv ?SKIP (''Dockerfile.tmpl'' @ ''_condition'' @ [])
      (Condition gatedTemplate) = (''SKIP'', None)"
    by (simp add: demo_defs2)
  have wr: "fst (renderAndWriteFile demoEnv ?SKIP dockerfileCopy ''Dockerfile.tmpl'' ''out''
      ''Dockerfile'' emptyDisk) = None"
    by (simp add: demo_defs2)
  from C2_condition_decides_iteration [OF path, of ?skip "''skip''" "[]" "[]" True
      dockerfileCopy "''out''" emptyDisk] c1
  have a: "renderSingleTemplateIteration demoEnv gatedTemplate ?skip
       ''Dockerfile.tmpl'' [] [] [] True dockerfileCopy ''out'' emptyDisk = (([], True), emptyDisk)"
    using ne by simp
  from C2_condition_decides_iteration [OF path, of ?SKIP "''SKIP''" "[]" "[]" True
      dockerfileCopy "''out''" emptyDisk] c2 wr
  have b: "\<exists>r. fst (renderSingleTemplateIteration demoEnv gatedTemplate ?SKIP
          ''Dockerfile.tmpl'' [] [] [] True dockerfileCopy ''out'' emptyDisk) = ([r], True)
        \<and> RelativeFilePath r = ''Dockerfile'' \<and> Success_f r"
    by auto
  from path ne c1 a c2 b show ?thesis by blast
qed

section \<open>Resolve-with-fallback\<close>

lemma renderDefault_cases:
  "renderStringDefaultFromTemplate env k s =
     (case template_Parse env (''__defaultvalue_'' @ k) s of
        Inl err \<Rightarrow> Inl (InvalidDefault k err)
      | Inr tmpl \<Rightarrow>
          (case tmpl Map.empty of
             Inl err \<Rightarrow> Inl (InvalidDefault k err)
           | Inr buf \<Rightarrow> Inr (VString buf)))"
  by (simp add: renderStringDefaultFromTemplate_def)

lemma renderDefault_Inl:
  "renderStringDefaultFromTemplate env k s = Inl err \<Longrightarrow> \<exists>e. err = InvalidDefault k e"
  by (auto simp: renderDefault_cases split: sum.splits)

lemma renderDefault_fails:
  "isl (renderStringDefaultFromTemplate env k s) = defaultFails env k s"
  by (auto simp: renderDefault_cases defaultFails_def split: sum.splits)

lemma valueOrDefault_Inl:
  "valueOrDefault env parameters nilDefault k v = Inl err \<Longrightarrow> \<exists>e. err = InvalidDefault k e"
  by (auto simp: valueOrDefault_def split: if_splits any.splits dest: renderDefault_Inl)

lemma construct_loop_other:
  "constructRenderSpec_loop env parameters nilDefault vars ps0 = Inr ps \<Longrightarrow>
     k \<notin> fst ` set vars \<Longrightarrow> ps k = ps0 k"
proof (induction vars arbitrary: ps0)
  case Nil
  then show ?case by simp
next
  case (Cons kv vars)
  obtain k' v' where kv: "kv = (k', v')" by (cases kv)
  from Cons.prems kv obtain val where
    rest: "constructRenderSpec_loop env parameters nilDefault vars (ps0(k' \<mapsto> val)) = Inr ps"
    by (auto split: sum.splits)
  from Cons.prems kv have "k \<noteq> k'" and "k \<notin> fst ` set vars" by auto
  with Cons.IH [OF rest] show ?case by simp
qed

lemma construct_loop_dom:
  "constructRenderSpec_loop env parameters nilDefault vars ps0 = Inr ps \<Longrightarrow>
     dom ps = dom ps0 \<union> fst ` set vars"
proof (induction vars arbitrary: ps0)
  case Nil
  then show ?case by simp
next
  case (Cons kv vars)
  obtain k' v' where kv: "kv = (k', v')" by (cases kv)
  from Cons.prems kv obtain val where
    rest: "constructRenderSpec_loop env parameters nilDefault vars (ps0(k' \<mapsto> val)) = Inr ps"
    by (auto split: sum.splits)
  from Cons.IH [OF rest] kv show ?case by auto
qed

lemma construct_loop_Inr:
  "constructRenderSpec_loop env parameters nilDefault vars ps0 = Inr ps \<Longrightarrow>
     (k, v) \<in> set vars \<Longrightarrow> distinct (map fst vars) \<Longrightarrow>
     \<exists>val. valueOrDefault env parameters nilDefault k v = Inr val \<and> ps k = Some val"
proof (induction vars arbitrary: ps0)
  case Nil
  then show ?case by simp
next
  case (Cons kv vars)
  obtain k' v' where kv: "kv = (k', v')" by (cases kv)
  from Cons.prems kv obtain val where
    val: "valueOrDefault env parameters nilDefault k' v' = Inr val"
    and rest: "constructRenderSpec_loop env parameters nilDefault vars (ps0(k' \<mapsto> val)) = Inr ps"
    by (auto split: sum.splits)
  show ?case
  proof (cases "(k, v) = (k', v')")
    case True
    with Cons.prems kv have "k' \<notin> fst ` set vars" by auto
    from construct_loop_other [OF rest this] have "ps k' = Some val" by simp
    with True val show ?thesis by simp
  next
    case False
    with Cons.prems kv have "(k, v) \<in> set vars" "distinct (map fst vars)" by auto
    from Cons.IH [OF rest this] show ?thesis .
  qed
qed

lemma construct_loop_Inl:
  "constructRenderSpec_loop env parameters nilDefault vars ps0 = Inl err \<Longrightarrow>
     \<exists>k v. (k, v) \<in> set vars \<and> valueOrDefault env parameters nilDefault k v = Inl err"
proof (induction vars arbitrary: ps0)
  case Nil
  then show ?case by simp
next
  case (Cons kv vars)
  obtain k' v' where kv: "kv = (k', v')" by (cases kv)
  show ?case
  proof (cases "valueOrDefault env parameters nilDefault k' v'")
    case (Inl e)
    with Cons.prems kv have "e = err" by simp
    with Inl kv show ?thesis by auto
  next
    case (Inr val)
    with Cons.prems kv
    have "constructRenderSpec_loop env parameters nilDefault vars (ps0(k' \<mapsto> val)) = Inl err"
      by simp
    from Cons.IH [OF this] show ?thesis by auto
  qed
qed

lemma construct_loop_fails:
  "(k, v) \<in> set vars \<Longrightarrow> isl (valueOrDefault env parameters nilDefault k v) \<Longrightarrow>
     isl (constructRenderSpec_loop env parameters nilDefault vars ps0)"
proof (induction vars arbitrary: ps0)
  case Nil
  then show ?case by simp
next
  case (Cons kv vars)
  obtain k' v' where kv: "kv = (k', v')" by (cases kv)
  show ?case
  proof (cases "valueOrDefault env parameters nilDefault k' v'")
    case (Inl e)
    with kv show ?thesis by simp
  next
    case (Inr val)
    with Cons.prems kv have "(k, v) \<in> set vars" by auto
    from Cons.IH [OF this Cons.prems(2)] Inr kv show ?thesis by simp
  qed
qed

lemma construct_Inr_iff:
  "constructRenderSpecWithValuesOrDefaults env name genSpec parameters nilDefault = Inr rs \<longleftrightarrow>
     (\<exists>ps. constructRenderSpec_loop env parameters nilDefault (Variables genSpec) Map.empty = Inr ps
        \<and> rs = \<lparr>GeneratorName = name, Parameters = ps\<rparr>)"
  by (auto simp: constructRenderSpecWithValuesOrDefaults_def split: sum.splits)

lemma construct_Inl_iff:
  "constructRenderSpecWithValuesOrDefaults env name genSpec parameters nilDefault = Inl err \<longleftrightarrow>
     constructRenderSpec_loop env parameters nilDefault (Variables genSpec) Map.empty = Inl err"
  by (auto simp: constructRenderSpecWithValuesOrDefaults_def split: sum.splits)

text \<open>
  C7. When \<open>constructRenderSpecWithValuesOrDefaults\<close> returns a render spec, it carries the
  generator name and a parameter for every declared variable and for nothing else, and
  for the declared variable \<open>k\<close>: the supplied value as it is when one is supplied (an
  entry that is there and not nil); otherwise, for a string default, the text that the
  default renders to as a template of its own against the empty parameter map; for the
  nil default, \<open>nilDefault\<close>; for any other default, the default as it is. A string default
  in use that does not render makes the call fail, and every failure of the call is the
  spec-authoring error of such a default, with no render spec returned.
\<close>

theorem C7_resolve_with_fallback:
  assumes "distinct (map fst (Variables genSpec))"
    and "(k, v) \<in> set (Variables genSpec)"
  shows
    "(\<forall>rs. constructRenderSpecWithValuesOrDefaults env generatorName genSpec parameters nilDefault
            = Inr rs \<longrightarrow>
        GeneratorName rs = generatorName \<and>
        dom (Parameters rs) = fst ` set (Variables genSpec) \<and>
        (index_map parameters k \<noteq> VNil \<longrightarrow> Parameters rs k = Some (index_map parameters k)) \<and>
        (index_map parameters k = VNil \<longrightarrow>
           (\<forall>defaultStr. DefaultValue v = VString defaultStr \<longrightarrow>
              (\<exists>tmpl buf. template_Parse env (''__defaultvalue_'' @ k) defaultStr = Inr tmpl \<and>
                 tmpl Map.empty = Inr buf \<and> Parameters rs k = Some (VString buf))) \<and>
           (DefaultValue v = VNil \<longrightarrow> Parameters rs k = Some nilDefault) \<and>
           ((\<forall>s. DefaultValue v \<noteq> VString s) \<and> DefaultValue v \<noteq> VNil \<longrightarrow>
              Parameters rs k = Some (DefaultValue v))))
     \<and> (\<forall>defaultStr. index_map parameters k = VNil \<and> DefaultValue v = VString defaultStr \<and>
           defaultFails env k defaultStr \<longrightarrow>
         isl (constructRenderSpecWithValuesOrDefaults env generatorName genSpec parameters
                nilDefault))
     \<and> (\<forall>err. constructRenderSpecWithValuesOrDefaults env generatorName genSpec parameters
                 nilDefault = Inl err \<longrightarrow>
         (\<exists>k' v' defaultStr e. (k', v') \<in> set (Variables genSpec) \<and>
            index_map parameters k' = VNil \<and> DefaultValue v' = VString defaultStr \<and>
            defaultFails env k' defaultStr \<and> err = InvalidDefault k' e))"
proof (intro conjI allI impI)
  fix rs
  assume ok: "constructRenderSpecWithValuesOrDefaults env generatorName genSpec parameters
      nilDefault = Inr rs"
  then obtain ps where
    loop: "constructRenderSpec_loop env parameters nilDefault (Variables genSpec) Map.empty = Inr ps"
    and rs: "rs = \<lparr>GeneratorName = generatorName, Parameters = ps\<rparr>"
    by (auto simp: construct_Inr_iff)
  from rs show "GeneratorName rs = generatorName" by simp
  from construct_loop_dom [OF loop] rs
  show "dom (Parameters rs) = fst ` set (Variables genSpec)" by simp
  from construct_loop_Inr [OF loop assms(2) assms(1)] rs obtain val where
    val: "valueOrDefault env parameters nilDefault k v = Inr val"
    and psk: "Parameters rs k = Some val"
    by auto
  {
    assume "index_map parameters k \<noteq> VNil"
    with val psk show "Parameters rs k = Some (index_map parameters k)"
      by (simp add: valueOrDefault_def)
  }
  {
    fix defaultStr
    assume "index_map parameters k = VNil" and "DefaultValue v = VString defaultStr"
    with val have "renderStringDefaultFromTemplate env k defaultStr = Inr val"
      by (simp add: valueOrDefault_def)
    with psk
    show "\<exists>tmpl buf. template_Parse env (''__defaultvalue_'' @ k) defaultStr = Inr tmpl \<and>
        tmpl Map.empty = Inr buf \<and> Parameters rs k = Some (VString buf)"
      by (auto simp: renderDefault_cases split: sum.splits)
  }
  {
    assume "index_map parameters k = VNil" and "DefaultValue v = VNil"
    with val psk show "Parameters rs k = Some nilDefault"
      by (simp add: valueOrDefault_def)
  }
  {
    assume "index_map parameters k = VNil"
      and "(\<forall>s. DefaultValue v \<noteq> VString s) \<and> DefaultValue v \<noteq> VNil"
    with val psk show "Parameters rs k = Some (DefaultValue v)"
      by (auto simp: valueOrDefault_def split: any.splits)
  }
next
  fix defaultStr
  assume "index_map parameters k = VNil \<and> DefaultValue v = VString defaultStr \<and>
      defaultFails env k defaultStr"
  then have "isl (valueOrDefault env parameters nilDefault k v)"
    by (simp add: valueOrDefault_def renderDefault_fails)
  from construct_loop_fails [OF assms(2) this, of Map.empty]
  show "isl (constructRenderSpecWithValuesOrDefaults env generatorName genSpec parameters
      nilDefault)"
    by (auto simp: constructRenderSpecWithValuesOrDefaults_def split: sum.splits)
next
  fix err
  assume "constructRenderSpecWithValuesOrDefaults env generatorName genSpec parameters
      nilDefault = Inl err"
  then have "constructRenderSpec_loop env parameters nilDefault (Variables genSpec) Map.empty
      = Inl err"
    by (simp add: construct_Inl_iff)
  from construct_loop_Inl [OF this] obtain k' v' where
    mem: "(k', v') \<in> set (Variables genSpec)"
    and f: "valueOrDefault env parameters nilDefault k' v' = Inl err"
    by auto
  from f obtain defaultStr where nil: "index_map parameters k' = VNil"
    and d: "DefaultValue v' = VString defaultStr"
    and r: "renderStringDefaultFromTemplate env k' defaultStr = Inl err"
    by (auto simp: valueOrDefault_def split: if_splits any.splits)
  from r have "defaultFails env k' defaultStr"
    using renderDefault_fails [of env k' defaultStr] by simp
  moreover from r obtain e where "err = InvalidDefault k' e"
    by (auto dest: renderDefault_Inl)
  ultimately
  show "\<exists>k' v' defaultStr e. (k', v') \<in> set (Variables genSpec) \<and>
            index_map parameters k' = VNil \<and> DefaultValue v' = VString defaultStr \<and>
            defaultFails env k' defaultStr \<and> err = InvalidDefault k' e"
    using mem nil d by blast
qed


text \<open>
  The theorem at the generator \<open>main\<close> with \<open>structureMap\<close> supplied, at the generator
  \<open>docker\<close> with the empty string for missing defaults, and at a default that does not
  parse.
\<close>

lemmas resolve_defs = constructRenderSpecWithValuesOrDefaults_def valueOrDefault_def
  index_map_def renderStringDefaultFromTemplate_def defaultFails_def demoEnv_def
  demo_template_Parse_def mainSpec_def helloMessage_def structureList_def structureMap_def
  unclosedSpec_def unclosedDefault_def dockerSpec_def serviceNameVar_def

theorem C7_witness:
  "distinct (map fst (Variables mainSpec))
   \<and> (''helloMessage'', helloMessage) \<in> set (Variables mainSpec)
   \<and> (\<exists>rs. constructRenderSpecWithValuesOrDefaults demoEnv ''main'' mainSpec
              [(''structureMap'', VString ''cat'')] VNil = Inr rs
         \<and> Parameters rs ''helloMessage'' = Some (VString ''hello world'')
         \<and> Parameters rs ''structureList'' = Some (DefaultValue structureList)
         \<and> Parameters rs ''structureMap'' = Some (VString ''cat''))
   \<and> (\<exists>rs. constructRenderSpecWithValuesOrDefaults demoEnv ''docker'' dockerSpec [] (VString [])
              = Inr rs
         \<and> Parameters rs ''serviceName'' = Some (VString []))
   \<and> isl (constructRenderSpecWithValuesOrDefaults demoEnv ''bad'' unclosedSpec [] VNil)"
proof -
  let ?given = "[(''structureMap'', VString ''cat'')]"
  have d: "distinct (map fst (Variables mainSpec))"
    and m1: "(''helloMessage'', helloMessage) \<in> set (Variables mainSpec)"
    and m2: "(''structureList'', structureList) \<in> set (Variables mainSpec)"
    and m3: "(''structureMap'', structureMap) \<in> set (Variables mainSpec)"
    by (simp_all add: mainSpec_def)
  have "\<not> isl (constructRenderSpecWithValuesOrDefaults demoEnv ''main'' mainSpec ?given VNil)"
    by (simp add: resolve_defs)
  then obtain rs where
    rs: "constructRenderSpecWithValuesOrDefaults demoEnv ''main'' mainSpec ?given VNil = Inr rs"
    by (cases "constructRenderSpecWithValuesOrDefaults demoEnv ''main'' mainSpec ?given VNil") auto
  have parse: "template_Parse demoEnv (''__defaultvalue_'' @ ''helloMessage'') ''hello world'' =
      Inr (\<lambda>parameters. Inr ''hello world'')"
    by (simp add: demoEnv_def demo_template_Parse_def)
  from C7_resolve_with_fallback [OF d m1, of demoEnv "''main''" ?given VNil] rs parse
  have a: "Parameters rs ''helloMessage'' = Some (VString ''hello world'')"
    by (auto simp: index_map_def helloMessage_def)
  from C7_resolve_with_fallback [OF d m2, of demoEnv "''main''" ?given VNil] rs
  have b: "Parameters rs ''structureList'' = Some (DefaultValue structureList)"
    by (auto simp: index_map_def structureList_def)
  from C7_resolve_with_fallback [OF d m3, of demoEnv "''main''" ?given VNil] rs
  have c: "Parameters rs ''structureMap'' = Some (VString ''cat'')"
    by (auto simp: index_map_def)
  have d': "distinct (map fst (Variables dockerSpec))"
    and m': "(''serviceName'', serviceNameVar) \<in> set (Variables dockerSpec)"
    by (simp_all add: dockerSpec_def)
  have "\<not> isl (constructRenderSpecWithValuesOrDefaults demoEnv ''docker'' dockerSpec [] (VString []))"
    by (simp add: resolve_defs)
  then obtain rs' where rs': "constructRenderSpecWithValuesOrDefaults demoEnv ''docker'' dockerSpec
      [] (VString []) = Inr rs'"
    by (cases "constructRenderSpecWithValuesOrDefaults demoEnv ''docker'' dockerSpec []
        (VString [])") auto
  from C7_resolve_with_fallback [OF d' m', of demoEnv "''docker''" "[]" "VString []"] rs'
  have e: "Parameters rs' ''serviceName'' = Some (VString [])"
    by (auto simp: index_map_def serviceNameVar_def)
  have d'': "distinct (map fst (Variables unclosedSpec))"
    and m'': "(''serviceName'', unclosedDefault) \<in> set (Variables unclosedSpec)"
    by (simp_all add: unclosedSpec_def)
  have "index_map [] ''serviceName'' = VNil \<and> DefaultValue unclosedDefault = VString ''{{'' \<and>
      defaultFails demoEnv ''serviceName'' ''{{''"
    by (simp add: resolve_defs)
  with C7_resolve_with_fallback [OF d'' m'', of demoEnv "''bad''" "[]" VNil]
  have f: "isl (constructRenderSpecWithValuesOrDefaults demoEnv ''bad'' unclosedSpec [] VNil)"
    by blast
  from d m1 rs a b c rs' e f show ?thesis by blast
qed

section \<open>Writing a render spec\<close>

lemma construct_loop_succeeds:
  "\<forall>kv \<in> set vars. \<not> isl (valueOrDefault env parameters nilDefault (fst kv) (snd kv)) \<Longrightarrow>
     \<exists>ps. constructRenderSpec_loop env parameters nilDefault vars ps0 = Inr ps"
proof (induction vars arbitrary: ps0)
  case Nil
  then show ?case by simp
next
  case (Cons kv vars)
  obtain k v where kv: "kv = (k, v)" by (cases kv)
  from Cons.prems kv obtain val where "valueOrDefault env parameters nilDefault k v = Inr val"
    by (cases "valueOrDefault env parameters nilDefault k v") auto
  moreover from Cons.prems
  have "\<forall>kv \<in> set vars. \<not> isl (valueOrDefault env parameters nilDefault (fst kv) (snd kv))"
    by simp
  from Cons.IH [OF this]
  have "\<exists>ps. constructRenderSpec_loop env parameters nilDefault vars (ps0(k \<mapsto> val)) = Inr ps" .
  ultimately show ?case using kv by simp
qed

lemma valueOrDefault_unsupplied:
  "\<not> isl (valueOrDefault env [] nilDefault k v) \<longleftrightarrow>
     (\<forall>s. DefaultValue v = VString s \<longrightarrow> \<not> defaultFails env k s)"
  by (cases "DefaultValue v")
    (simp_all add: valueOrDefault_def index_map_def renderDefault_fails)

lemma construct_errors:
  "constructRenderSpecWithValuesOrDefaults env name genSpec parameters nilDefault = Inl err \<Longrightarrow>
     \<not> validationError err"
proof -
  assume "constructRenderSpecWithValuesOrDefaults env name genSpec parameters nilDefault = Inl err"
  then have "constructRenderSpec_loop env parameters nilDefault (Variables genSpec) Map.empty
      = Inl err"
    by (simp add: construct_Inl_iff)
  from construct_loop_Inl [OF this] obtain k e where "err = InvalidDefault k e"
    by (auto dest: valueOrDefault_Inl)
  then show ?thesis by (simp add: validationError_def)
qed

lemma extraneous_Some:
  "k \<in> fst ` set parameters \<Longrightarrow> map_of (Variables genSpec) k = None \<Longrightarrow>
     \<exists>k'. k' \<in> fst ` set parameters \<and> map_of (Variables genSpec) k' = None \<and>
       extraneousParameter parameters genSpec = Some (NotAllowed k')"
proof (induction parameters)
  case Nil
  then show ?case by simp
next
  case (Cons kv parameters)
  obtain k0 v0 where kv: "kv = (k0, v0)" by (cases kv)
  show ?case
  proof (cases "map_of (Variables genSpec) k0 = None")
    case True
    with kv show ?thesis by auto
  next
    case False
    with Cons.prems kv have "k \<in> fst ` set parameters" by auto
    from Cons.IH [OF this Cons.prems(2)] False kv show ?thesis by auto
  qed
qed

lemmas write_defs = demoEnv_def demo_template_Parse_def demo_Compile_def sourceDisk_def
  theRequest_def fqdnSpec_def fqdnVar_def ownerVar_def dockerSpec_def serviceNameVar_def
  mainSpec_def helloMessage_def structureList_def structureMap_def

lemmas write_eval = WriteRenderSpecWithValues_def WriteRenderSpecWithDefaults_def
  constructRenderSpecWithValuesOrDefaults_def valueOrDefault_def index_map_def
  renderStringDefaultFromTemplate_def constructAndValidateParameterMap_def validatedValue_def
  resolveValue_def validateValue_def regexp_MatchString_def errorResponseToplevel_def
  successResponse_def successFileResult_def letters_search anchored_letters

text \<open>
  C8. \<open>WriteRenderSpecWithDefaults\<close> applies no validation pattern. Its response never
  carries an error of the validation loop (a required parameter that is missing, a
  pattern that does not compile, a value that does not match). When the generator spec
  loads and every string default renders, whatever the patterns say, the call builds a
  render spec in which every variable that has no default is the empty string, and its
  outcome is the outcome of persisting that render spec.
\<close>

theorem C8_defaults_are_not_validated:
  "list_all (\<lambda>err. \<not> validationError err)
     (Errors (fst (WriteRenderSpecWithDefaults env request generatorName w)))
   \<and> (\<forall>genSpec.
        gd_ObtainGeneratorSpec env (SourceBaseDir request) generatorName w = Inr genSpec \<and>
        distinct (map fst (Variables genSpec)) \<and>
        (\<forall>kv \<in> set (Variables genSpec). \<forall>s. DefaultValue (snd kv) = VString s \<longrightarrow>
           \<not> defaultFails env (fst kv) s) \<longrightarrow>
        (\<exists>renderSpec.
           constructRenderSpecWithValuesOrDefaults env generatorName genSpec [] (VString [])
             = Inr renderSpec \<and>
           (\<forall>kv \<in> set (Variables genSpec). DefaultValue (snd kv) = VNil \<longrightarrow>
              Parameters renderSpec (fst kv) = Some (VString [])) \<and>
           WriteRenderSpecWithDefaults env request generatorName w =
             (case td_WriteRenderSpec env (TargetBaseDir request) renderSpec
                     (RenderSpecFile request) w of
                (Inl err, w') \<Rightarrow> (errorResponseToplevel (Opaque err), w')
              | (Inr targetFile, w') \<Rightarrow> (successResponse [successFileResult targetFile], w'))))"
proof (intro conjI allI impI)
  show "list_all (\<lambda>err. \<not> validationError err)
     (Errors (fst (WriteRenderSpecWithDefaults env request generatorName w)))"
    by (auto simp: WriteRenderSpecWithDefaults_def errorResponseToplevel_def
        successResponse_def validationError_def
        split: sum.splits prod.splits dest: construct_errors)
next
  fix genSpec
  assume h: "gd_ObtainGeneratorSpec env (SourceBaseDir request) generatorName w = Inr genSpec \<and>
        distinct (map fst (Variables genSpec)) \<and>
        (\<forall>kv \<in> set (Variables genSpec). \<forall>s. DefaultValue (snd kv) = VString s \<longrightarrow>
           \<not> defaultFails env (fst kv) s)"
  then have "\<forall>kv \<in> set (Variables genSpec).
      \<not> isl (valueOrDefault env [] (VString []) (fst kv) (snd kv))"
    by (simp add: valueOrDefault_unsupplied)
  from construct_loop_succeeds [OF this, of Map.empty] obtain ps where
    loop: "constructRenderSpec_loop env [] (VString []) (Variables genSpec) Map.empty = Inr ps"
    by blast
  let ?rs = "\<lparr>GeneratorName = generatorName, Parameters = ps\<rparr>"
  from loop have rs: "constructRenderSpecWithValuesOrDefaults env generatorName genSpec []
      (VString []) = Inr ?rs"
    by (simp add: construct_Inr_iff)
  have empty: "\<forall>kv \<in> set (Variables genSpec). DefaultValue (snd kv) = VNil \<longrightarrow>
      Parameters ?rs (fst kv) = Some (VString [])"
  proof (intro ballI impI)
    fix kv
    assume mem: "kv \<in> set (Variables genSpec)" and nil: "DefaultValue (snd kv) = VNil"
    from mem have "(fst kv, snd kv) \<in> set (Variables genSpec)" by simp
    from construct_loop_Inr [OF loop this] h nil
    show "Parameters ?rs (fst kv) = Some (VString [])"
      by (auto simp: valueOrDefault_def index_map_def)
  qed
  from h rs have "WriteRenderSpecWithDefaults env request generatorName w =
      (case td_WriteRenderSpec env (TargetBaseDir request) ?rs (RenderSpecFile request) w of
         (Inl err, w') \<Rightarrow> (errorResponseToplevel (Opaque err), w')
       | (Inr targetFile, w') \<Rightarrow> (successResponse [successFileResult targetFile], w'))"
    by (simp add: WriteRenderSpecWithDefaults_def)
  with rs empty
  show "\<exists>renderSpec.
           constructRenderSpecWithValuesOrDefaults env generatorName genSpec [] (VString [])
             = Inr renderSpec \<and>
           (\<forall>kv \<in> set (Variables genSpec). DefaultValue (snd kv) = VNil \<longrightarrow>
              Parameters renderSpec (fst kv) = Some (VString [])) \<and>
           WriteRenderSpecWithDefaults env request generatorName w =
             (case td_WriteRenderSpec env (TargetBaseDir request) renderSpec
                     (RenderSpecFile request) w of
                (Inl err, w') \<Rightarrow> (errorResponseToplevel (Opaque err), w')
              | (Inr targetFile, w') \<Rightarrow> (successResponse [successFileResult targetFile], w'))"
    by blast
qed

text \<open>
  The theorem at a generator whose default \<open>your fqdn\<close> does not match its pattern
  \<open>^[a-zA-Z]+$\<close> and whose variable \<open>owner\<close> has no default: the call succeeds and the
  render spec in the target directory gives \<open>owner\<close> the empty string.
\<close>

theorem C8_witness:
  "gd_ObtainGeneratorSpec demoEnv (SourceBaseDir theRequest) ''fqdn'' sourceDisk = Inr fqdnSpec
   \<and> distinct (map fst (Variables fqdnSpec))
   \<and> \<not> defaultFails demoEnv ''fqdn'' ''your fqdn''
   \<and> validateValue demoEnv ''fqdn'' fqdnVar (DefaultValue fqdnVar) =
        Some (PatternMismatch ''fqdn'' ''^[a-zA-Z]+$'')
   \<and> fst (WriteRenderSpecWithDefaults demoEnv theRequest ''fqdn'' sourceDisk) =
        successResponse [successFileResult ''render.yaml'']
   \<and> (\<exists>renderSpec. renderSpecs (snd (WriteRenderSpecWithDefaults demoEnv theRequest ''fqdn''
          sourceDisk)) = [(''render.yaml'', renderSpec)]
        \<and> Parameters renderSpec ''owner'' = Some (VString []))"
proof -
  have g: "gd_ObtainGeneratorSpec demoEnv (SourceBaseDir theRequest) ''fqdn'' sourceDisk
      = Inr fqdnSpec"
    and d: "distinct (map fst (Variables fqdnSpec))"
    and r: "\<not> defaultFails demoEnv ''fqdn'' ''your fqdn''"
    by (simp_all add: write_defs defaultFails_def)
  have v: "validateValue demoEnv ''fqdn'' fqdnVar (DefaultValue fqdnVar) =
        Some (PatternMismatch ''fqdn'' ''^[a-zA-Z]+$'')"
    by (simp add: write_defs validateValue_def regexp_MatchString_def anchored_letters)
  from r have "\<forall>kv \<in> set (Variables fqdnSpec). \<forall>s. DefaultValue (snd kv) = VString s \<longrightarrow>
      \<not> defaultFails demoEnv (fst kv) s"
    by (simp add: fqdnSpec_def fqdnVar_def ownerVar_def)
  with C8_defaults_are_not_validated [of demoEnv theRequest "''fqdn''" sourceDisk] g d
  obtain renderSpec where
    e: "\<forall>kv \<in> set (Variables fqdnSpec). DefaultValue (snd kv) = VNil \<longrightarrow>
          Parameters renderSpec (fst kv) = Some (VString [])"
    and w: "WriteRenderSpecWithDefaults demoEnv theRequest ''fqdn'' sourceDisk =
        (case td_WriteRenderSpec demoEnv (TargetBaseDir theRequest) renderSpec
                (RenderSpecFile theRequest) sourceDisk of
           (Inl err, w') \<Rightarrow> (errorResponseToplevel (Opaque err), w')
         | (Inr targetFile, w') \<Rightarrow> (successResponse [successFileResult targetFile], w'))"
    by blast
  from e have o: "Parameters renderSpec ''owner'' = Some (VString [])"
    by (simp add: fqdnSpec_def fqdnVar_def ownerVar_def)
  from w have s: "fst (WriteRenderSpecWithDefaults demoEnv theRequest ''fqdn'' sourceDisk) =
      successResponse [successFileResult ''render.yaml'']"
    and p: "renderSpecs (snd (WriteRenderSpecWithDefaults demoEnv theRequest ''fqdn'' sourceDisk))
      = [(''render.yaml'', renderSpec)]"
    by (simp_all add: demoEnv_def theRequest_def sourceDisk_def)
  from g d r v s p o show ?thesis by blast
qed

text \<open>
  C10. \<open>WriteRenderSpecWithDefaults\<close> and \<open>WriteRenderSpecWithValues\<close> succeed exactly when
  every step up to and including the write of the render spec succeeds, and the response
  then has the success flag, no errors, and exactly one file result: a successful one
  with no errors whose path is the file path that the write returned.
\<close>

theorem C10_success_response_of_write:
  "(Success (fst (WriteRenderSpecWithDefaults env request generatorName w)) \<longleftrightarrow>
      (\<exists>genSpec renderSpec targetFile w'.
         gd_ObtainGeneratorSpec env (SourceBaseDir request) generatorName w = Inr genSpec \<and>
         constructRenderSpecWithValuesOrDefaults env generatorName genSpec [] (VString [])
           = Inr renderSpec \<and>
         td_WriteRenderSpec env (TargetBaseDir request) renderSpec (RenderSpecFile request) w
           = (Inr targetFile, w') \<and>
         WriteRenderSpecWithDefaults env request generatorName w =
           (\<lparr>Success = True,
             RenderedFiles =
               [\<lparr>Success_f = True, RelativeFilePath = targetFile, Errors_f = []\<rparr>],
             Errors = []\<rparr>, w')))
   \<and> (Success (fst (WriteRenderSpecWithValues env request generatorName parameters w)) \<longleftrightarrow>
      (\<exists>genSpec renderSpec validated targetFile w'.
         gd_ObtainGeneratorSpec env (SourceBaseDir request) generatorName w = Inr genSpec \<and>
         constructRenderSpecWithValuesOrDefaults env generatorName genSpec parameters VNil
           = Inr renderSpec \<and>
         constructAndValidateParameterMap env genSpec renderSpec = Inr validated \<and>
         extraneousParameter parameters genSpec = None \<and>
         td_WriteRenderSpec env (TargetBaseDir request) renderSpec (RenderSpecFile request) w
           = (Inr targetFile, w') \<and>
         WriteRenderSpecWithValues env request generatorName parameters w =
           (\<lparr>Success = True,
             RenderedFiles =
               [\<lparr>Success_f = True, RelativeFilePath = targetFile, Errors_f = []\<rparr>],
             Errors = []\<rparr>, w')))"
proof (rule conjI)
  show "Success (fst (WriteRenderSpecWithDefaults env request generatorName w)) \<longleftrightarrow>
      (\<exists>genSpec renderSpec targetFile w'.
         gd_ObtainGeneratorSpec env (SourceBaseDir request) generatorName w = Inr genSpec \<and>
         constructRenderSpecWithValuesOrDefaults env generatorName genSpec [] (VString [])
           = Inr renderSpec \<and>
         td_WriteRenderSpec env (TargetBaseDir request) renderSpec (RenderSpecFile request) w
           = (Inr targetFile, w') \<and>
         WriteRenderSpecWithDefaults env request generatorName w =
           (\<lparr>Success = True,
             RenderedFiles =
               [\<lparr>Success_f = True, RelativeFilePath = targetFile, Errors_f = []\<rparr>],
             Errors = []\<rparr>, w'))"
    by (auto simp: WriteRenderSpecWithDefaults_def errorResponseToplevel_def
        successResponse_def successFileResult_def split: sum.splits prod.splits)
next
  show "Success (fst (WriteRenderSpecWithValues env request generatorName parameters w)) \<longleftrightarrow>
      (\<exists>genSpec renderSpec validated targetFile w'.
         gd_ObtainGeneratorSpec env (SourceBaseDir request) generatorName w = Inr genSpec \<and>
         constructRenderSpecWithValuesOrDefaults env generatorName genSpec parameters VNil
           = Inr renderSpec \<and>
         constructAndValidateParameterMap env genSpec renderSpec = Inr validated \<and>
         extraneousParameter parameters genSpec = None \<and>
         td_WriteRenderSpec env (TargetBaseDir request) renderSpec (RenderSpecFile request) w
           = (Inr targetFile, w') \<and>
         WriteRenderSpecWithValues env request generatorName parameters w =
           (\<lparr>Success = True,
             RenderedFiles =
               [\<lparr>Success_f = True, RelativeFilePath = targetFile, Errors_f = []\<rparr>],
             Errors = []\<rparr>, w'))"
    by (auto simp: WriteRenderSpecWithValues_def errorResponseToplevel_def
        successResponse_def successFileResult_def split: sum.splits prod.splits option.splits)
qed

text \<open>The theorem at the generators \<open>main\<close> and \<open>docker\<close>.\<close>

theorem C10_witness:
  "Success (fst (WriteRenderSpecWithDefaults demoEnv theRequest ''main'' sourceDisk))
   \<and> fst (WriteRenderSpecWithDefaults demoEnv theRequest ''main'' sourceDisk) =
       \<lparr>Success = True,
        RenderedFiles = [\<lparr>Success_f = True, RelativeFilePath = ''render.yaml'', Errors_f = []\<rparr>],
        Errors = []\<rparr>
   \<and> Success (fst (WriteRenderSpecWithValues demoEnv theRequest ''docker''
        [(''serviceName'', VString ''svc'')] sourceDisk))
   \<and> fst (WriteRenderSpecWithValues demoEnv theRequest ''docker''
        [(''serviceName'', VString ''svc'')] sourceDisk) =
       \<lparr>Success = True,
        RenderedFiles = [\<lparr>Success_f = True, RelativeFilePath = ''render.yaml'', Errors_f = []\<rparr>],
        Errors = []\<rparr>"
proof -
  have wr: "td_WriteRenderSpec demoEnv dir renderSpec (RenderSpecFile theRequest) w =
      (Inr targetFile, w') \<Longrightarrow> targetFile = ''render.yaml''" for dir renderSpec w targetFile w'
    by (auto simp: demoEnv_def theRequest_def)
  have a: "Success (fst (WriteRenderSpecWithDefaults demoEnv theRequest ''main'' sourceDisk))"
    by (simp add: write_defs write_eval)
  with C10_success_response_of_write [of demoEnv theRequest "''main''" sourceDisk "[]"]
  obtain renderSpec targetFile w' where
    "td_WriteRenderSpec demoEnv (TargetBaseDir theRequest) renderSpec (RenderSpecFile theRequest)
       sourceDisk = (Inr targetFile, w')"
    and "WriteRenderSpecWithDefaults demoEnv theRequest ''main'' sourceDisk =
       (\<lparr>Success = True,
         RenderedFiles = [\<lparr>Success_f = True, RelativeFilePath = targetFile, Errors_f = []\<rparr>],
         Errors = []\<rparr>, w')"
    by blast
  with wr have b: "fst (WriteRenderSpecWithDefaults demoEnv theRequest ''main'' sourceDisk) =
       \<lparr>Success = True,
        RenderedFiles = [\<lparr>Success_f = True, RelativeFilePath = ''render.yaml'', Errors_f = []\<rparr>],
        Errors = []\<rparr>"
    by simp
  have c: "Success (fst (WriteRenderSpecWithValues demoEnv theRequest ''docker''
        [(''serviceName'', VString ''svc'')] sourceDisk))"
    by (simp add: write_defs write_eval)
  with C10_success_response_of_write [of demoEnv theRequest "''docker''" sourceDisk
      "[(''serviceName'', VString ''svc'')]"]
  obtain renderSpec' targetFile' w'' where
    "td_WriteRenderSpec demoEnv (TargetBaseDir theRequest) renderSpec' (RenderSpecFile theRequest)
       sourceDisk = (Inr targetFile', w'')"
    and "WriteRenderSpecWithValues demoEnv theRequest ''docker''
        [(''serviceName'', VString ''svc'')] sourceDisk =
       (\<lparr>Success = True,
         RenderedFiles = [\<lparr>Success_f = True, RelativeFilePath = targetFile', Errors_f = []\<rparr>],
         Errors = []\<rparr>, w'')"
    by blast
  with wr have d: "fst (WriteRenderSpecWithValues demoEnv theRequest ''docker''
        [(''serviceName'', VString ''svc'')] sourceDisk) =
       \<lparr>Success = True,
        RenderedFiles = [\<lparr>Success_f = True, RelativeFilePath = ''render.yaml'', Errors_f = []\<rparr>],
        Errors = []\<rparr>"
    by simp
  from a b c d show ?thesis by blast
qed

text \<open>
  C3, as amended. When \<open>WriteRenderSpecWithValues\<close> gets a parameter whose key the loaded
  generator spec does not declare, the call fails with one top-level error and the file
  system is left as it was. The check for undeclared keys comes last: an error of
  resolve-with-fallback or of resolve-and-validate is returned as it is, and only when
  both succeed the error is the unknown-parameter error, naming an undeclared key of the
  parameters.
\<close>

theorem C3_unknown_parameter_checked_last:
  assumes "gd_ObtainGeneratorSpec env (SourceBaseDir request) generatorName w = Inr genSpec"
    and "k \<in> fst ` set parameters"
    and "map_of (Variables genSpec) k = None"
  shows
    "(\<exists>err. WriteRenderSpecWithValues env request generatorName parameters w =
        (errorResponseToplevel err, w))
     \<and> (\<forall>err. constructRenderSpecWithValuesOrDefaults env generatorName genSpec parameters VNil
               = Inl err \<longrightarrow>
          WriteRenderSpecWithValues env request generatorName parameters w =
            (errorResponseToplevel err, w))
     \<and> (\<forall>renderSpec err.
          constructRenderSpecWithValuesOrDefaults env generatorName genSpec parameters VNil
            = Inr renderSpec \<and>
          constructAndValidateParameterMap env genSpec renderSpec = Inl err \<longrightarrow>
          WriteRenderSpecWithValues env request generatorName parameters w =
            (errorResponseToplevel err, w))
     \<and> (\<forall>renderSpec validated.
          constructRenderSpecWithValuesOrDefaults env generatorName genSpec parameters VNil
            = Inr renderSpec \<and>
          constructAndValidateParameterMap env genSpec renderSpec = Inr validated \<longrightarrow>
          (\<exists>k'. k' \<in> fst ` set parameters \<and> map_of (Variables genSpec) k' = None \<and>
             WriteRenderSpecWithValues env request generatorName parameters w =
               (errorResponseToplevel (NotAllowed k'), w)))"
proof -
  from extraneous_Some [OF assms(2) assms(3)] obtain k' where
    k': "k' \<in> fst ` set parameters" "map_of (Variables genSpec) k' = None"
    and ex: "extraneousParameter parameters genSpec = Some (NotAllowed k')"
    by blast
  have a: "\<exists>err. WriteRenderSpecWithValues env request generatorName parameters w =
        (errorResponseToplevel err, w)"
    using assms(1) ex by (auto simp: WriteRenderSpecWithValues_def split: sum.splits)
  have b: "\<forall>err. constructRenderSpecWithValuesOrDefaults env generatorName genSpec parameters VNil
               = Inl err \<longrightarrow>
          WriteRenderSpecWithValues env request generatorName parameters w =
            (errorResponseToplevel err, w)"
    using assms(1) by (simp add: WriteRenderSpecWithValues_def)
  have c: "\<forall>renderSpec err.
          constructRenderSpecWithValuesOrDefaults env generatorName genSpec parameters VNil
            = Inr renderSpec \<and>
          constructAndValidateParameterMap env genSpec renderSpec = Inl err \<longrightarrow>
          WriteRenderSpecWithValues env request generatorName parameters w =
            (errorResponseToplevel err, w)"
    using assms(1) by (simp add: WriteRenderSpecWithValues_def)
  have d: "\<forall>renderSpec validated.
          constructRenderSpecWithValuesOrDefaults env generatorName genSpec parameters VNil
            = Inr renderSpec \<and>
          constructAndValidateParameterMap env genSpec renderSpec = Inr validated \<longrightarrow>
          (\<exists>k'. k' \<in> fst ` set parameters \<and> map_of (Variables genSpec) k' = None \<and>
             WriteRenderSpecWithValues env request generatorName parameters w =
               (errorResponseToplevel (NotAllowed k'), w))"
    using assms(1) ex k' by (auto simp: WriteRenderSpecWithValues_def)
  from a b c d show ?thesis by blast
qed

text \<open>
  C3 as stated fails: with the undeclared key \<open>bogus\<close> and no value for \<open>serviceName\<close>
  the error is the one of the missing parameter, and with a value that does not match
  it is the pattern violation.
\<close>

theorem C3_counterexample:
  "map_of (Variables dockerSpec) ''bogus'' = None
   \<and> fst (WriteRenderSpecWithValues demoEnv theRequest ''docker'' [(''bogus'', VString ''x'')]
        sourceDisk) = errorResponseToplevel (RequiredMissing ''serviceName'')
   \<and> fst (WriteRenderSpecWithValues demoEnv theRequest ''docker''
        [(''bogus'', VString ''x''), (''serviceName'', VString ''123'')] sourceDisk) =
       errorResponseToplevel (PatternMismatch ''serviceName'' ''[a-zA-Z]+'')"
  by (simp add: write_defs write_eval)

text \<open>The theorem at the generator \<open>docker\<close>, with a valid \<open>serviceName\<close> and \<open>bogus\<close>.\<close>

theorem C3_witness:
  "gd_ObtainGeneratorSpec demoEnv (SourceBaseDir theRequest) ''docker'' sourceDisk = Inr dockerSpec
   \<and> ''bogus'' \<in> fst ` set [(''bogus'', VString ''x''), (''serviceName'', VString ''svc'')]
   \<and> map_of (Variables dockerSpec) ''bogus'' = None
   \<and> WriteRenderSpecWithValues demoEnv theRequest ''docker''
        [(''bogus'', VString ''x''), (''serviceName'', VString ''svc'')] sourceDisk =
       (errorResponseToplevel (NotAllowed ''bogus''), sourceDisk)"
proof -
  let ?ps = "[(''bogus'', VString ''x''), (''serviceName'', VString ''svc'')]"
  have g: "gd_ObtainGeneratorSpec demoEnv (SourceBaseDir theRequest) ''docker'' sourceDisk
      = Inr dockerSpec"
    and m: "''bogus'' \<in> fst ` set ?ps"
    and u: "map_of (Variables dockerSpec) ''bogus'' = None"
    and s: "map_of (Variables dockerSpec) ''serviceName'' \<noteq> None"
    by (simp_all add: write_defs)
  have "\<not> isl (constructRenderSpecWithValuesOrDefaults demoEnv ''docker'' dockerSpec ?ps VNil)"
    by (simp add: write_defs write_eval)
  then obtain renderSpec where
    r: "constructRenderSpecWithValuesOrDefaults demoEnv ''docker'' dockerSpec ?ps VNil
      = Inr renderSpec"
    by (cases "constructRenderSpecWithValuesOrDefaults demoEnv ''docker'' dockerSpec ?ps VNil")
      auto
  then have "\<not> isl (constructAndValidateParameterMap demoEnv dockerSpec renderSpec)"
    by (auto simp: write_defs write_eval)
  then obtain validated where
    v: "constructAndValidateParameterMap demoEnv dockerSpec renderSpec = Inr validated"
    by (cases "constructAndValidateParameterMap demoEnv dockerSpec renderSpec") auto
  from C3_unknown_parameter_checked_last [OF g m u] r v
  obtain k' where "k' \<in> fst ` set ?ps" and "map_of (Variables dockerSpec) k' = None"
    and "WriteRenderSpecWithValues demoEnv theRequest ''docker'' ?ps sourceDisk =
       (errorResponseToplevel (NotAllowed k'), sourceDisk)"
    by blast
  with s have "WriteRenderSpecWithValues demoEnv theRequest ''docker'' ?ps sourceDisk =
       (errorResponseToplevel (NotAllowed ''bogus''), sourceDisk)"
    by auto
  with g m u show ?thesis by blast
qed

section \<open>Rendering\<close>

lemma renderString_error: "renderString env ps n c = (p, Some err) \<Longrightarrow> p = []"
  by (auto simp: renderString_def split: sum.splits)

lemma iteration_appends:
  "renderSingleTemplateIteration env tplSpec ps name ext iext files ok tmpl targetDir w
     = ((files', ok'), w') \<Longrightarrow>
   \<exists>new. files' = files @ new \<and> length new \<le> 1 \<and> ok' = (ok \<and> list_all Success_f new)
     \<and> list_all itemized new"
  by (auto simp: renderSingleTemplateIteration_def errorFileResult_def successFileResult_def
      itemized_def fileError_def split: prod.splits option.splits sum.splits if_splits)

lemma renderItems_appends:
  "renderItems env tplSpec name tmplw targetDir counter items ps files ok w
     = ((files', ok'), ps', w') \<Longrightarrow>
   \<exists>new. files' = files @ new \<and> ok' = (ok \<and> list_all Success_f new) \<and> list_all itemized new"
proof (induction items arbitrary: counter ps files ok w)
  case Nil
  then show ?case by simp
next
  case (Cons item items)
  obtain files1 ok1 w1 where it: "renderSingleTemplateIteration env tplSpec
      (ps(''item'' \<mapsto> item)) name (''_'' @ Sprintf_d (counter + 1))
      ('' for item #'' @ Sprintf_d (counter + 1)) files ok tmplw targetDir w = ((files1, ok1), w1)"
    by (metis surj_pair)
  with Cons.prems have rest: "renderItems env tplSpec name tmplw targetDir (counter + 1) items
      (ps(''item'' \<mapsto> item)) files1 ok1 w1 = ((files', ok'), ps', w')"
    by simp
  from iteration_appends [OF it] obtain new1 where
    n1: "files1 = files @ new1" "ok1 = (ok \<and> list_all Success_f new1)" "list_all itemized new1"
    by blast
  from Cons.IH [OF rest] obtain new2 where
    n2: "files' = files1 @ new2" "ok' = (ok1 \<and> list_all Success_f new2)" "list_all itemized new2"
    by blast
  from n1 n2 show ?case
    by (intro exI [of _ "new1 @ new2"]) auto
qed

lemma renderSingleTemplate_itemized:
  "renderSingleTemplate env tplSpec ps sourceDir targetDir w = ((files, ok), ps', w') \<Longrightarrow>
     ok = list_all Success_f files \<and> list_all itemized files"
proof -
  assume r: "renderSingleTemplate env tplSpec ps sourceDir targetDir w = ((files, ok), ps', w')"
  show ?thesis
  proof (cases "gd_ReadFile env sourceDir (RelativeSourcePath tplSpec) w")
    case (Inl err)
    with r show ?thesis
      by (auto simp: renderSingleTemplate_def errorFileResult_def itemized_def fileError_def)
  next
    case (Inr contents)
    note read = this
    show ?thesis
    proof (cases "tw_Parse env (JustCopy tplSpec) contents
        (ReplaceAll_slash (RelativeSourcePath tplSpec)) (RelativeSourcePath tplSpec)")
      case (Inl err)
      with r read show ?thesis
        by (auto simp: renderSingleTemplate_def errorFileResult_def itemized_def fileError_def)
    next
      case (Inr tmplw)
      show ?thesis
      proof (cases "WithItems tplSpec = []")
        case True
        with r read Inr obtain w1 where "renderSingleTemplateIteration env tplSpec ps
            (ReplaceAll_slash (RelativeSourcePath tplSpec)) [] [] [] True tmplw targetDir w
            = ((files, ok), w1)"
          by (auto simp: renderSingleTemplate_def split: prod.splits)
        from iteration_appends [OF this] show ?thesis by auto
      next
        case False
        with r read Inr have "renderItems env tplSpec
            (ReplaceAll_slash (RelativeSourcePath tplSpec)) tmplw targetDir 0 (WithItems tplSpec)
            ps [] True w = ((files, ok), ps', w')"
          by (simp add: renderSingleTemplate_def)
        from renderItems_appends [OF this] show ?thesis by auto
      qed
    qed
  qed
qed

lemma renderAllTemplates_loop_appends:
  "renderAllTemplates_loop env tpls ps sourceDir targetDir files ok w = ((files', ok'), ps', w')
     \<Longrightarrow>
   \<exists>new. files' = files @ new \<and> ok' = (ok \<and> list_all Success_f new) \<and> list_all itemized new"
proof (induction tpls arbitrary: ps files ok w)
  case Nil
  then show ?case by simp
next
  case (Cons tplSpec tpls)
  obtain rendered success ps1 w1 where
    one: "renderSingleTemplate env tplSpec ps sourceDir targetDir w = ((rendered, success), ps1, w1)"
    by (metis surj_pair)
  with Cons.prems have rest: "renderAllTemplates_loop env tpls ps1 sourceDir targetDir
      (files @ rendered) (ok \<and> success) w1 = ((files', ok'), ps', w')"
    by simp
  from renderSingleTemplate_itemized [OF one]
  have s: "success = list_all Success_f rendered" "list_all itemized rendered" by simp_all
  from Cons.IH [OF rest] obtain new where
    "files' = (files @ rendered) @ new" "ok' = ((ok \<and> success) \<and> list_all Success_f new)"
    "list_all itemized new"
    by blast
  with s show ?case
    by (intro exI [of _ "rendered @ new"]) auto
qed

lemma renderAllTemplates_itemized:
  "renderAllTemplates env genSpec ps sourceDir targetDir w = ((files, ok), w') \<Longrightarrow>
     ok = list_all Success_f files \<and> list_all itemized files"
proof -
  assume "renderAllTemplates env genSpec ps sourceDir targetDir w = ((files, ok), w')"
  then obtain ps' where "renderAllTemplates_loop env (Templates genSpec) ps sourceDir targetDir
      [] True w = ((files, ok), ps', w')"
    by (auto simp: renderAllTemplates_def split: prod.splits)
  from renderAllTemplates_loop_appends [OF this] show ?thesis by auto
qed

lemmas render_defs = demoEnv_def demo_template_Parse_def demo_tw_Parse_def demo_Compile_def
  theRequest_def dockerDisk_def missingTemplateDisk_def emptyDisk_def dockerSpec_def
  serviceNameVar_def dockerValues_def

lemmas render_eval = Render_def renderAllTemplates_def renderSingleTemplate_def
  renderSingleTemplateIteration_def renderString_def evaluateCondition_def
  renderAndWriteFile_def ReplaceAll_slash_def constructAndValidateParameterMap_def
  validatedValue_def resolveValue_def validateValue_def regexp_MatchString_def
  errorResponseToplevel_def errorResponseRender_def successResponse_def
  successFileResult_def errorFileResult_def letters_search

text \<open>
  C4, as amended. The top-level errors of the response of \<open>Render\<close> are empty exactly when
  the response is a success. A failure before the file-level work (loading the render
  spec, loading the generator spec, resolving and validating the parameters) gives that
  one error, no file results, and leaves the files as they were. Once the parameters are
  validated the response carries every file result of \<open>renderAllTemplates\<close>; each of them
  is itemized (a failure carries its own single error), the success flag is the
  conjunction of theirs, and the top-level errors are empty when all succeeded and the
  one generic error \<open>RenderingFailed\<close> when any of them failed.
\<close>

theorem C4_toplevel_errors_of_render:
  "(Errors (fst (Render env request w)) = []) = Success (fst (Render env request w))
   \<and> (\<forall>err. td_ObtainRenderSpec env (TargetBaseDir request) (RenderSpecFile request) w = Inl err
        \<longrightarrow> Render env request w = (errorResponseToplevel (Opaque err), w))
   \<and> (\<forall>renderSpec err.
        td_ObtainRenderSpec env (TargetBaseDir request) (RenderSpecFile request) w
          = Inr renderSpec \<and>
        gd_ObtainGeneratorSpec env (SourceBaseDir request) (GeneratorName renderSpec) w = Inl err
        \<longrightarrow> Render env request w = (errorResponseToplevel (Opaque err), w))
   \<and> (\<forall>renderSpec genSpec err.
        td_ObtainRenderSpec env (TargetBaseDir request) (RenderSpecFile request) w
          = Inr renderSpec \<and>
        gd_ObtainGeneratorSpec env (SourceBaseDir request) (GeneratorName renderSpec) w
          = Inr genSpec \<and>
        constructAndValidateParameterMap env genSpec renderSpec = Inl err
        \<longrightarrow> Render env request w = (errorResponseToplevel err, w))
   \<and> (\<forall>renderSpec genSpec parameters.
        td_ObtainRenderSpec env (TargetBaseDir request) (RenderSpecFile request) w
          = Inr renderSpec \<and>
        gd_ObtainGeneratorSpec env (SourceBaseDir request) (GeneratorName renderSpec) w
          = Inr genSpec \<and>
        constructAndValidateParameterMap env genSpec renderSpec = Inr parameters
        \<longrightarrow> (\<exists>files w'.
               renderAllTemplates env genSpec parameters (SourceBaseDir request)
                 (TargetBaseDir request) w = ((files, list_all Success_f files), w') \<and>
               list_all itemized files \<and>
               Render env request w =
                 (\<lparr>Success = list_all Success_f files, RenderedFiles = files,
                   Errors = (if list_all Success_f files then [] else [RenderingFailed])\<rparr>, w')))"
proof -
  have last: "\<exists>files w'.
       renderAllTemplates env genSpec parameters (SourceBaseDir request)
         (TargetBaseDir request) w = ((files, list_all Success_f files), w') \<and>
       list_all itemized files \<and>
       Render env request w =
         (\<lparr>Success = list_all Success_f files, RenderedFiles = files,
           Errors = (if list_all Success_f files then [] else [RenderingFailed])\<rparr>, w')"
    if rs: "td_ObtainRenderSpec env (TargetBaseDir request) (RenderSpecFile request) w
          = Inr renderSpec"
      and gs: "gd_ObtainGeneratorSpec env (SourceBaseDir request) (GeneratorName renderSpec) w
          = Inr genSpec"
      and ps: "constructAndValidateParameterMap env genSpec renderSpec = Inr parameters"
    for renderSpec genSpec parameters
  proof -
    obtain files ok w' where all: "renderAllTemplates env genSpec parameters
        (SourceBaseDir request) (TargetBaseDir request) w = ((files, ok), w')"
      by (metis surj_pair)
    from renderAllTemplates_itemized [OF all]
    have ok: "ok = list_all Success_f files" and it: "list_all itemized files" by simp_all
    from rs gs ps all ok have "Render env request w =
         (\<lparr>Success = list_all Success_f files, RenderedFiles = files,
           Errors = (if list_all Success_f files then [] else [RenderingFailed])\<rparr>, w')"
      by (simp add: Render_def successResponse_def errorResponseRender_def)
    with all ok it show ?thesis by blast
  qed
  have flag: "(Errors (fst (Render env request w)) = []) = Success (fst (Render env request w))"
    by (simp add: Render_def successResponse_def errorResponseRender_def errorResponseToplevel_def
        split: sum.splits prod.splits)
  have a: "\<forall>err. td_ObtainRenderSpec env (TargetBaseDir request) (RenderSpecFile request) w
        = Inl err \<longrightarrow> Render env request w = (errorResponseToplevel (Opaque err), w)"
    by (simp add: Render_def)
  have b: "\<forall>renderSpec err.
        td_ObtainRenderSpec env (TargetBaseDir request) (RenderSpecFile request) w
          = Inr renderSpec \<and>
        gd_ObtainGeneratorSpec env (SourceBaseDir request) (GeneratorName renderSpec) w = Inl err
        \<longrightarrow> Render env request w = (errorResponseToplevel (Opaque err), w)"
    by (simp add: Render_def)
  have c: "\<forall>renderSpec genSpec err.
        td_ObtainRenderSpec env (TargetBaseDir request) (RenderSpecFile request) w
          = Inr renderSpec \<and>
        gd_ObtainGeneratorSpec env (SourceBaseDir request) (GeneratorName renderSpec) w
          = Inr genSpec \<and>
        constructAndValidateParameterMap env genSpec renderSpec = Inl err
        \<longrightarrow> Render env request w = (errorResponseToplevel err, w)"
    by (simp add: Render_def)
  from flag a b c last show ?thesis by blast
qed

text \<open>
  C4 as stated fails: the render spec and the generator spec load and the parameters are
  valid, the template file is missing, and the top-level errors are not empty.
\<close>

theorem C4_counterexample:
  "\<not> isl (td_ObtainRenderSpec demoEnv (TargetBaseDir theRequest) (RenderSpecFile theRequest)
        missingTemplateDisk)
   \<and> \<not> isl (gd_ObtainGeneratorSpec demoEnv (SourceBaseDir theRequest) ''docker''
        missingTemplateDisk)
   \<and> \<not> isl (constructAndValidateParameterMap demoEnv dockerSpec (dockerValues ''svc''))
   \<and> fst (Render demoEnv theRequest missingTemplateDisk) =
       \<lparr>Success = False,
        RenderedFiles =
          [\<lparr>Success_f = False, RelativeFilePath = ''Dockerfile'',
            Errors_f = [LoadTemplate ''Dockerfile.tmpl'' ''no such file'']\<rparr>],
        Errors = [RenderingFailed]\<rparr>"
  by (simp add: render_defs render_eval)

text \<open>
  The theorem at a target directory with no render spec, at the generator \<open>docker\<close>, and
  at the generator \<open>docker\<close> without its template file.
\<close>

theorem C4_witness:
  "td_ObtainRenderSpec demoEnv (TargetBaseDir theRequest) (RenderSpecFile theRequest) emptyDisk
     = Inl ''error reading render spec file''
   \<and> Render demoEnv theRequest emptyDisk =
       (errorResponseToplevel (Opaque ''error reading render spec file''), emptyDisk)
   \<and> td_ObtainRenderSpec demoEnv (TargetBaseDir theRequest) (RenderSpecFile theRequest) dockerDisk
       = Inr (dockerValues ''svc'')
   \<and> gd_ObtainGeneratorSpec demoEnv (SourceBaseDir theRequest)
       (GeneratorName (dockerValues ''svc'')) dockerDisk = Inr dockerSpec
   \<and> constructAndValidateParameterMap demoEnv dockerSpec (dockerValues ''svc'') =
       Inr [''serviceName'' \<mapsto> VString ''svc'']
   \<and> fst (Render demoEnv theRequest dockerDisk) =
       \<lparr>Success = True,
        RenderedFiles = [\<lparr>Success_f = True, RelativeFilePath = ''Dockerfile'', Errors_f = []\<rparr>],
        Errors = []\<rparr>
   \<and> fst (Render demoEnv theRequest missingTemplateDisk) =
       \<lparr>Success = False,
        RenderedFiles =
          [\<lparr>Success_f = False, RelativeFilePath = ''Dockerfile'',
            Errors_f = [LoadTemplate ''Dockerfile.tmpl'' ''no such file'']\<rparr>],
        Errors = [RenderingFailed]\<rparr>"
proof -
  let ?ps = "[''serviceName'' \<mapsto> VString ''svc'']"
  have e: "td_ObtainRenderSpec demoEnv (TargetBaseDir theRequest) (RenderSpecFile theRequest)
      emptyDisk = Inl ''error reading render spec file''"
    by (simp add: render_defs)
  with C4_toplevel_errors_of_render [of demoEnv theRequest emptyDisk]
  have a: "Render demoEnv theRequest emptyDisk =
      (errorResponseToplevel (Opaque ''error reading render spec file''), emptyDisk)"
    by blast
  have rs: "td_ObtainRenderSpec demoEnv (TargetBaseDir theRequest) (RenderSpecFile theRequest) d
      = Inr (dockerValues ''svc'')"
    and gs: "gd_ObtainGeneratorSpec demoEnv (SourceBaseDir theRequest)
      (GeneratorName (dockerValues ''svc'')) d = Inr dockerSpec"
    if "d = dockerDisk \<or> d = missingTemplateDisk" for d
    using that by (auto simp: render_defs)
  have ps: "constructAndValidateParameterMap demoEnv dockerSpec (dockerValues ''svc'') = Inr ?ps"
    by (simp add: render_defs render_eval)
  have all1: "fst (renderAllTemplates demoEnv dockerSpec ?ps (SourceBaseDir theRequest)
      (TargetBaseDir theRequest) dockerDisk) =
      ([\<lparr>Success_f = True, RelativeFilePath = ''Dockerfile'', Errors_f = []\<rparr>], True)"
    by (simp add: render_defs render_eval)
  have all2: "fst (renderAllTemplates demoEnv dockerSpec ?ps (SourceBaseDir theRequest)
      (TargetBaseDir theRequest) missingTemplateDisk) =
      ([\<lparr>Success_f = False, RelativeFilePath = ''Dockerfile'',
         Errors_f = [LoadTemplate ''Dockerfile.tmpl'' ''no such file'']\<rparr>], False)"
    by (simp add: render_defs render_eval)
  from C4_toplevel_errors_of_render [of demoEnv theRequest dockerDisk] rs gs ps
  obtain files w' where "renderAllTemplates demoEnv dockerSpec ?ps (SourceBaseDir theRequest)
      (TargetBaseDir theRequest) dockerDisk = ((files, list_all Success_f files), w')"
    and "Render demoEnv theRequest dockerDisk =
      (\<lparr>Success = list_all Success_f files, RenderedFiles = files,
        Errors = (if list_all Success_f files then [] else [RenderingFailed])\<rparr>, w')"
    by blast
  with all1 have b: "fst (Render demoEnv theRequest dockerDisk) =
       \<lparr>Success = True,
        RenderedFiles = [\<lparr>Success_f = True, RelativeFilePath = ''Dockerfile'', Errors_f = []\<rparr>],
        Errors = []\<rparr>"
    by simp
  from C4_toplevel_errors_of_render [of demoEnv theRequest missingTemplateDisk] rs gs ps
  obtain files' w'' where "renderAllTemplates demoEnv dockerSpec ?ps (SourceBaseDir theRequest)
      (TargetBaseDir theRequest) missingTemplateDisk = ((files', list_all Success_f files'), w'')"
    and "Render demoEnv theRequest missingTemplateDisk =
      (\<lparr>Success = list_all Success_f files', RenderedFiles = files',
        Errors = (if list_all Success_f files' then [] else [RenderingFailed])\<rparr>, w'')"
    by blast
  with all2 have c: "fst (Render demoEnv theRequest missingTemplateDisk) =
       \<lparr>Success = False,
        RenderedFiles =
          [\<lparr>Success_f = False, RelativeFilePath = ''Dockerfile'',
            Errors_f = [LoadTemplate ''Dockerfile.tmpl'' ''no such file'']\<rparr>],
        Errors = [RenderingFailed]\<rparr>"
    by simp
  from e a rs [of dockerDisk] gs [of dockerDisk] ps b c show ?thesis by simp
qed

section \<open>Units with items\<close>

lemma iteration_no_condition:
  assumes "Condition tplSpec = []"
  shows "\<exists>r w'. renderSingleTemplateIteration env tplSpec ps name ext iext files ok tmpl
             targetDir w = ((files @ [r], ok \<and> Success_f r), w')
           \<and> RelativeFilePath r = fst (renderString env ps (name @ ''_path'' @ ext)
                 (RelativeTargetPath tplSpec))
           \<and> (Success_f r \<longrightarrow>
                 snd (renderString env ps (name @ ''_path'' @ ext) (RelativeTargetPath tplSpec))
                   = None
                 \<and> \<not> isl (tmpl name ps))"
proof (cases "renderString env ps (name @ ''_path'' @ ext) (RelativeTargetPath tplSpec)")
  case (Pair p e)
  show ?thesis
  proof (cases e)
    case (Some err)
    with Pair renderString_error [of env ps _ _ p err] have "p = []" by simp
    with Pair Some show ?thesis
      by (simp add: renderSingleTemplateIteration_def errorFileResult_def)
  next
    case None
    show ?thesis
    proof (cases "renderAndWriteFile env ps tmpl name targetDir p w")
      case (Pair e' w')
      with None \<open>renderString env ps (name @ ''_path'' @ ext) (RelativeTargetPath tplSpec) = (p, e)\<close>
        assms
      show ?thesis
        by (cases e')
          (auto simp: renderSingleTemplateIteration_def evaluateCondition_def
            errorFileResult_def successFileResult_def renderAndWriteFile_def
            split: sum.splits)
    qed
  qed
qed

lemma renderItems_no_condition:
  assumes "Condition tplSpec = []"
  shows "\<exists>new ok' w'.
      renderItems env tplSpec (ReplaceAll_slash (RelativeSourcePath tplSpec)) tmplw targetDir
        counter items ps files ok w
      = ((files @ new, ok'), (if items = [] then ps else ps(''item'' \<mapsto> last items)), w')
      \<and> length new = length items
      \<and> (\<forall>i < length items.
            RelativeFilePath (new ! i) =
              fst (itemPath env tplSpec ps (counter + i + 1) (items ! i))
            \<and> (Success_f (new ! i) \<longrightarrow>
                  snd (itemPath env tplSpec ps (counter + i + 1) (items ! i)) = None
                  \<and> \<not> isl (tmplw (ReplaceAll_slash (RelativeSourcePath tplSpec))
                          (ps(''item'' \<mapsto> items ! i)))))"
proof (induction items arbitrary: counter ps files ok w)
  case Nil
  then show ?case by simp
next
  case (Cons item items)
  let ?name = "ReplaceAll_slash (RelativeSourcePath tplSpec)"
  let ?ps = "ps(''item'' \<mapsto> item)"
  from iteration_no_condition [OF assms, of env ?ps ?name "''_'' @ Sprintf_d (counter + 1)"
      "'' for item #'' @ Sprintf_d (counter + 1)" files ok tmplw targetDir w]
  obtain r w1 where
    it: "renderSingleTemplateIteration env tplSpec ?ps ?name (''_'' @ Sprintf_d (counter + 1))
        ('' for item #'' @ Sprintf_d (counter + 1)) files ok tmplw targetDir w
      = ((files @ [r], ok \<and> Success_f r), w1)"
    and path: "RelativeFilePath r = fst (itemPath env tplSpec ps (counter + 1) item)"
    and succ: "Success_f r \<longrightarrow> snd (itemPath env tplSpec ps (counter + 1) item) = None
        \<and> \<not> isl (tmplw ?name ?ps)"
    by (auto simp: itemPath_def)
  from Cons.IH [of "counter + 1" ?ps "files @ [r]" "ok \<and> Success_f r" w1]
  obtain new ok' w' where
    rest: "renderItems env tplSpec ?name tmplw targetDir (counter + 1) items ?ps (files @ [r])
        (ok \<and> Success_f r) w1
      = (((files @ [r]) @ new, ok'),
         (if items = [] then ?ps else ?ps(''item'' \<mapsto> last items)), w')"
    and len: "length new = length items"
    and each: "\<forall>i < length items.
        RelativeFilePath (new ! i) =
          fst (itemPath env tplSpec ?ps (counter + 1 + i + 1) (items ! i))
        \<and> (Success_f (new ! i) \<longrightarrow>
              snd (itemPath env tplSpec ?ps (counter + 1 + i + 1) (items ! i)) = None
              \<and> \<not> isl (tmplw ?name (?ps(''item'' \<mapsto> items ! i))))"
    by blast
  have same: "itemPath env tplSpec ?ps n x = itemPath env tplSpec ps n x" for n x
    by (simp add: itemPath_def)
  have run: "renderItems env tplSpec ?name tmplw targetDir counter (item # items) ps files ok w
      = ((files @ (r # new), ok'),
         (if item # items = [] then ps else ps(''item'' \<mapsto> last (item # items))), w')"
    using it rest by simp
  have "\<forall>i < length (item # items).
      RelativeFilePath ((r # new) ! i) =
        fst (itemPath env tplSpec ps (counter + i + 1) ((item # items) ! i))
      \<and> (Success_f ((r # new) ! i) \<longrightarrow>
            snd (itemPath env tplSpec ps (counter + i + 1) ((item # items) ! i)) = None
            \<and> \<not> isl (tmplw ?name (ps(''item'' \<mapsto> (item # items) ! i))))"
  proof (intro allI impI)
    fix i
    assume "i < length (item # items)"
    show "RelativeFilePath ((r # new) ! i) =
        fst (itemPath env tplSpec ps (counter + i + 1) ((item # items) ! i))
      \<and> (Success_f ((r # new) ! i) \<longrightarrow>
            snd (itemPath env tplSpec ps (counter + i + 1) ((item # items) ! i)) = None
            \<and> \<not> isl (tmplw ?name (ps(''item'' \<mapsto> (item # items) ! i))))"
    proof (cases i)
      case 0
      with path succ show ?thesis by simp
    next
      case (Suc j)
      with \<open>i < length (item # items)\<close> have "j < length items" by simp
      with each Suc show ?thesis by (simp add: same)
    qed
  qed
  moreover from len have "length (r # new) = length (item # items)" by simp
  ultimately show ?case using run by blast
qed

text \<open>
  C9. A unit whose source loads and parses, with \<open>N \<ge> 1\<close> items and the empty condition,
  gives exactly \<open>N\<close> file results, and its success flag is the conjunction of theirs. The
  file result number \<open>i\<close> belongs to the item number \<open>i\<close>: its path is the target path
  rendered with that item under the key \<open>item\<close> (the empty path when that rendering
  fails), and it is successful only if the path rendered and the body rendered with that
  item under the key \<open>item\<close>.
\<close>

theorem C9_one_file_result_per_item:
  assumes "gd_ReadFile env sourceDir (RelativeSourcePath tplSpec) w = Inr templateContents"
    and "tw_Parse env (JustCopy tplSpec) templateContents
           (ReplaceAll_slash (RelativeSourcePath tplSpec)) (RelativeSourcePath tplSpec) = Inr tmplw"
    and "WithItems tplSpec \<noteq> []"
    and "Condition tplSpec = []"
  shows "\<exists>files parameters' w'.
      renderSingleTemplate env tplSpec parameters sourceDir targetDir w
        = ((files, list_all Success_f files), parameters', w')
      \<and> length files = length (WithItems tplSpec)
      \<and> (\<forall>i < length (WithItems tplSpec).
            RelativeFilePath (files ! i) =
              fst (itemPath env tplSpec parameters (i + 1) (WithItems tplSpec ! i))
            \<and> (Success_f (files ! i) \<longrightarrow>
                  snd (itemPath env tplSpec parameters (i + 1) (WithItems tplSpec ! i)) = None
                  \<and> \<not> isl (tmplw (ReplaceAll_slash (RelativeSourcePath tplSpec))
                          (parameters(''item'' \<mapsto> WithItems tplSpec ! i)))))"
proof -
  let ?name = "ReplaceAll_slash (RelativeSourcePath tplSpec)"
  from renderItems_no_condition [OF assms(4), of env tmplw targetDir 0 "WithItems tplSpec"
      parameters "[]" True w]
  obtain new ok' w' where
    run: "renderItems env tplSpec ?name tmplw targetDir 0 (WithItems tplSpec) parameters [] True w
      = ((new, ok'), parameters(''item'' \<mapsto> last (WithItems tplSpec)), w')"
    and len: "length new = length (WithItems tplSpec)"
    and each: "\<forall>i < length (WithItems tplSpec).
        RelativeFilePath (new ! i) =
          fst (itemPath env tplSpec parameters (i + 1) (WithItems tplSpec ! i))
        \<and> (Success_f (new ! i) \<longrightarrow>
              snd (itemPath env tplSpec parameters (i + 1) (WithItems tplSpec ! i)) = None
              \<and> \<not> isl (tmplw ?name (parameters(''item'' \<mapsto> WithItems tplSpec ! i))))"
    using assms(3) by auto
  from run assms have one: "renderSingleTemplate env tplSpec parameters sourceDir targetDir w
      = ((new, ok'), parameters(''item'' \<mapsto> last (WithItems tplSpec)), w')"
    by (simp add: renderSingleTemplate_def)
  from renderSingleTemplate_itemized [OF one] have "ok' = list_all Success_f new" by simp
  with one len each show ?thesis by blast
qed

text \<open>
  The theorem at the unit with the items 1, 2, 3 and the target path \<open>out_{{.item}}.txt\<close>:
  the paths are \<open>out_1.txt\<close>, \<open>out_2.txt\<close>, \<open>out_3.txt\<close>, in this order.
\<close>

theorem C9_witness:
  "gd_ReadFile demoEnv ''generators'' (RelativeSourcePath countTemplate) countDisk
     = Inr ''number {{.item}}''
   \<and> \<not> isl (tw_Parse demoEnv (JustCopy countTemplate) ''number {{.item}}''
        (ReplaceAll_slash (RelativeSourcePath countTemplate)) (RelativeSourcePath countTemplate))
   \<and> WithItems countTemplate = [VInt 1, VInt 2, VInt 3]
   \<and> Condition countTemplate = []
   \<and> (\<exists>files. fst (fst (renderSingleTemplate demoEnv countTemplate Map.empty ''generators''
          ''out'' countDisk)) = files
        \<and> length files = 3
        \<and> RelativeFilePath (files ! 0) = ''out_1.txt''
        \<and> RelativeFilePath (files ! 1) = ''out_2.txt''
        \<and> RelativeFilePath (files ! 2) = ''out_3.txt'')"
proof -
  have rd: "gd_ReadFile demoEnv ''generators'' (RelativeSourcePath countTemplate) countDisk
      = Inr ''number {{.item}}''"
    and items: "WithItems countTemplate = [VInt 1, VInt 2, VInt 3]"
    and cond: "Condition countTemplate = []"
    by (simp_all add: demoEnv_def countTemplate_def countDisk_def)
  have np: "\<not> isl (tw_Parse demoEnv (JustCopy countTemplate) ''number {{.item}}''
      (ReplaceAll_slash (RelativeSourcePath countTemplate)) (RelativeSourcePath countTemplate))"
    by (simp add: demoEnv_def countTemplate_def demo_tw_Parse_def demo_template_Parse_def)
  then obtain tmplw where pr: "tw_Parse demoEnv (JustCopy countTemplate) ''number {{.item}}''
      (ReplaceAll_slash (RelativeSourcePath countTemplate)) (RelativeSourcePath countTemplate)
      = Inr tmplw"
    by (cases "tw_Parse demoEnv (JustCopy countTemplate) ''number {{.item}}''
      (ReplaceAll_slash (RelativeSourcePath countTemplate)) (RelativeSourcePath countTemplate)")
      auto
  have ne: "WithItems countTemplate \<noteq> []"
    by (simp add: items)
  have p: "fst (itemPath demoEnv countTemplate Map.empty (0 + 1) (WithItems countTemplate ! 0))
      = ''out_1.txt''"
    "fst (itemPath demoEnv countTemplate Map.empty (1 + 1) (WithItems countTemplate ! 1))
      = ''out_2.txt''"
    "fst (itemPath demoEnv countTemplate Map.empty (2 + 1) (WithItems countTemplate ! 2))
      = ''out_3.txt''"
    by (simp_all add: itemPath_def renderString_def demoEnv_def demo_template_Parse_def
        countTemplate_def Sprintf_d.simps digit_char_def)
  have l: "0 < length (WithItems countTemplate)" "1 < length (WithItems countTemplate)"
    "2 < length (WithItems countTemplate)"
    by (simp_all add: items)
  from C9_one_file_result_per_item [OF rd pr ne cond, of Map.empty "''out''"]
  obtain files where "fst (fst (renderSingleTemplate demoEnv countTemplate Map.empty ''generators''
      ''out'' countDisk)) = files"
    and "length files = length (WithItems countTemplate)"
    and each: "\<forall>i < length (WithItems countTemplate).
      RelativeFilePath (files ! i) =
        fst (itemPath demoEnv countTemplate Map.empty (i + 1) (WithItems countTemplate ! i))"
    by auto
  moreover from each [rule_format, OF l(1)] p(1)
  have "RelativeFilePath (files ! 0) = ''out_1.txt''" by (rule trans)
  moreover from each [rule_format, OF l(2)] p(2)
  have "RelativeFilePath (files ! 1) = ''out_2.txt''" by (rule trans)
  moreover from each [rule_format, OF l(3)] p(3)
  have "RelativeFilePath (files ! 2) = ''out_3.txt''" by (rule trans)
  ultimately show ?thesis using rd np items cond by auto
qed

section \<open>Where the code departs from the claims\<close>

text \<open>
  When the target path does not render, \<open>renderString\<close> returns the empty string with
  the error, and the iteration records that empty string as the path of the failure; the
  target path as written is in the error only. The condition and the body are not
  evaluated, and nothing is written.
\<close>

lemma iteration_path_failure:
  assumes "snd (renderString env ps (name @ ''_path'' @ ext) (RelativeTargetPath tplSpec))
      = Some err"
  shows "renderSingleTemplateIteration env tplSpec ps name ext iext files ok tmpl targetDir w =
      ((files @ [\<lparr>Success_f = False, RelativeFilePath = [],
          Errors_f = [EvalTargetPath (RelativeTargetPath tplSpec) iext err]\<rparr>], False), w)"
proof -
  from assms obtain p where
    "renderString env ps (name @ ''_path'' @ ext) (RelativeTargetPath tplSpec) = (p, Some err)"
    by (cases "renderString env ps (name @ ''_path'' @ ext) (RelativeTargetPath tplSpec)") simp
  with renderString_error [OF this] show ?thesis
    by (simp add: renderSingleTemplateIteration_def errorFileResult_def)
qed

lemma renderItems_parameters:
  "fst (snd (renderItems env tplSpec name tmplw targetDir counter items ps files ok w)) =
     (if items = [] then ps else ps(''item'' \<mapsto> last items))"
  by (induction items arbitrary: counter ps files ok w) (auto split: prod.splits)

lemma renderSingleTemplate_parameters:
  assumes "gd_ReadFile env sourceDir (RelativeSourcePath tplSpec) w = Inr templateContents"
    and "tw_Parse env (JustCopy tplSpec) templateContents
           (ReplaceAll_slash (RelativeSourcePath tplSpec)) (RelativeSourcePath tplSpec) = Inr tmplw"
  shows "fst (snd (renderSingleTemplate env tplSpec ps sourceDir targetDir w)) =
     (if WithItems tplSpec = [] then ps else ps(''item'' \<mapsto> last (WithItems tplSpec)))"
  using assms by (simp add: renderSingleTemplate_def renderItems_parameters split: prod.splits)

text \<open>
  C5. The claim asks for the target path as written as the recorded path of the failure.
  At a unit with the target path \<open>{{\<close> the code records the empty path; the units that
  fail to load or to parse do record the target path as written.
\<close>

theorem C5_path_failure_records_empty_path:
  "fst (Render demoEnv theRequest unclosedPathDisk) =
     \<lparr>Success = False,
      RenderedFiles =
        [\<lparr>Success_f = False, RelativeFilePath = [],
          Errors_f = [EvalTargetPath ''{{'' [] ''template: Dockerfile.tmpl_path: bad action'']\<rparr>],
      Errors = [RenderingFailed]\<rparr>
   \<and> written (snd (Render demoEnv theRequest unclosedPathDisk)) = []"
  by (simp add: render_defs render_eval unclosedPathDisk_def unclosedPathSpec_def)

text \<open>
  C6. The claim asks that a unit with no items sees no \<open>item\<close>. The loop over the items
  writes \<open>item\<close> to the one parameter map of the call, and nothing removes it: a unit
  with no items that comes after a unit with the items \<open>a\<close>, \<open>b\<close> is rendered with
  \<open>item\<close> being \<open>b\<close>, in its path and in its body; as the first unit it sees no \<open>item\<close>.
\<close>

theorem C6_item_of_earlier_unit_is_visible:
  "map RelativeFilePath (RenderedFiles (fst (Render demoEnv theRequest
       (itemsDisk [eachTemplate, onceTemplate])))) =
     [''each_a.txt'', ''each_b.txt'', ''once_b.txt'']
   \<and> written (snd (Render demoEnv theRequest (itemsDisk [eachTemplate, onceTemplate]))) =
     [(''once_b.txt'', ''item b''), (''each_b.txt'', ''item b''), (''each_a.txt'', ''item a'')]
   \<and> map RelativeFilePath (RenderedFiles (fst (Render demoEnv theRequest
       (itemsDisk [onceTemplate, eachTemplate])))) =
     [''once_<no value>.txt'', ''each_a.txt'', ''each_b.txt'']"
  by (simp add: render_defs render_eval itemsDisk_def eachTemplate_def onceTemplate_def
      Sprintf_d.simps digit_char_def)

end
